theory Spec2Isabelle
  imports Complex_Main "HOL-Library.Sublist"
begin

section \<open>Values shared by the services and agents\<close>

text \<open>
  The agents work on what \<^verbatim>\<open>json.loads\<close> returns for the language model's reply: any JSON
  value. A Python \<^verbatim>\<open>dict\<close> with string keys is an association list in insertion order, read
  with \<^const>\<open>map_of\<close>; a Python \<^verbatim>\<open>float\<close> is a \<^typ>\<open>real\<close> (no rounding, no NaN, no infinity), a
  Python \<^verbatim>\<open>int\<close> is an \<^typ>\<open>int\<close>, a \<^verbatim>\<open>str\<close> is a \<^typ>\<open>string\<close> of ASCII characters.
\<close>

datatype json = JNull | JBool bool | JInt int | JFloat real | JStr string
  | JArr "json list" | JObj "(string \<times> json) list"

type_synonym dict = "(string \<times> json) list"

text \<open>
  Exceptions are values. The built-in ones are raised by the Python operations the model
  spells out; \<open>External\<close> is whatever a boundary collaborator (vector store, model endpoint)
  raised, with its message; \<open>QueryProcessingError\<close> carries the prefix of its message and the
  exception whose text it embeds.
\<close>

datatype exn = TypeError | AttributeError | ZeroDivisionError
  | External string
  | QueryProcessingError string exn

text \<open>A retrieval hit as \<^verbatim>\<open>VectorStoreService.search_similar\<close> builds it.\<close>

record policy_doc =
  doc_content :: string
  doc_score :: real
  doc_source :: string

subsection \<open>Python built-ins on JSON values\<close>

definition dict_get :: "dict \<Rightarrow> string \<Rightarrow> json \<Rightarrow> json" where
  "dict_get d k dflt = (case map_of d k of None \<Rightarrow> dflt | Some v \<Rightarrow> v)"

text \<open>\<^verbatim>\<open>d[k] = v\<close>: an existing key keeps its place, a new one goes last.\<close>

fun dict_set :: "dict \<Rightarrow> string \<Rightarrow> json \<Rightarrow> dict" where
  "dict_set [] k v = [(k, v)]"
| "dict_set ((k', v') # d) k v = (if k' = k then (k, v) # d else (k', v') # dict_set d k v)"

text \<open>Lists and dicts cannot be dictionary keys: looking one up raises \<^verbatim>\<open>TypeError\<close>.\<close>

fun hashable :: "json \<Rightarrow> bool" where
  "hashable (JArr xs) = False"
| "hashable (JObj d) = False"
| "hashable v = True"

text \<open>Truth value of a JSON value in an \<^verbatim>\<open>if\<close>.\<close>

fun truthy :: "json \<Rightarrow> bool" where
  "truthy JNull = False"
| "truthy (JBool b) = b"
| "truthy (JInt i) = (i \<noteq> 0)"
| "truthy (JFloat x) = (x \<noteq> 0)"
| "truthy (JStr s) = (s \<noteq> [])"
| "truthy (JArr xs) = (xs \<noteq> [])"
| "truthy (JObj d) = (d \<noteq> [])"

text \<open>
  \<^verbatim>\<open>for x in v\<close>: a list yields its elements, a string its characters, a dict its keys;
  anything else is not iterable.
\<close>

fun py_iter :: "json \<Rightarrow> exn + json list" where
  "py_iter (JArr xs) = Inr xs"
| "py_iter (JStr s) = Inr (map (\<lambda>c. JStr [c]) s)"
| "py_iter (JObj d) = Inr (map (\<lambda>kv. JStr (fst kv)) d)"
| "py_iter v = Inl TypeError"

fun py_len :: "json \<Rightarrow> exn + nat" where
  "py_len (JArr xs) = Inr (length xs)"
| "py_len (JStr s) = Inr (length s)"
| "py_len (JObj d) = Inr (length d)"
| "py_len v = Inl TypeError"

text \<open>\<^verbatim>\<open>str(n)\<close> for a non-negative integer.\<close>

fun str_nat :: "nat \<Rightarrow> string" where
  "str_nat n = (if n < 10 then [''0123456789'' ! n]
                else str_nat (n div 10) @ [''0123456789'' ! (n mod 10)])"

declare str_nat.simps [simp del]

section \<open>Exception handler agent: enrichment of the plan\<close>

text \<open>
  \<^verbatim>\<open>ExceptionHandlerAgent._create_timeline_summary\<close>. The three buckets are a dict of lists;
  each step must be a dict (\<^verbatim>\<open>step.get\<close>), its timeline must be hashable
  (\<^verbatim>\<open>timeline_key in timeline\<close> raises on a list or a dict), and the action is appended
  only when the timeline is a key of the bucket dict; a number, a boolean or \<^verbatim>\<open>None\<close> is never
  a key of it.
\<close>

type_synonym buckets = "(string \<times> json list) list"

definition empty_timeline :: buckets where
  "empty_timeline = [(''immediate'', []), (''short_term'', []), (''long_term'', [])]"

fun bucket_append :: "buckets \<Rightarrow> string \<Rightarrow> json \<Rightarrow> buckets" where
  "bucket_append [] k x = []"
| "bucket_append ((k', xs) # bs) k x =
     (if k' = k then (k', xs @ [x]) # bs else (k', xs) # bucket_append bs k x)"

fun timeline_loop :: "json list \<Rightarrow> buckets \<Rightarrow> exn + buckets" where
  "timeline_loop [] timeline = Inr timeline"
| "timeline_loop (JObj step # rest) timeline =
     (case dict_get step ''timeline'' (JStr ''short_term'') of
        JArr xs \<Rightarrow> Inl TypeError
      | JObj d \<Rightarrow> Inl TypeError
      | JStr timeline_key \<Rightarrow>
          if timeline_key \<in> set (map fst timeline)
          then timeline_loop rest
                 (bucket_append timeline timeline_key (dict_get step ''action'' (JStr [])))
          else timeline_loop rest timeline
      | _ \<Rightarrow> timeline_loop rest timeline)"
| "timeline_loop (step # rest) timeline = Inl AttributeError"

definition buckets_json :: "buckets \<Rightarrow> json" where
  "buckets_json bs = JObj (map (\<lambda>(k, xs). (k, JArr xs)) bs)"

definition create_timeline_summary :: "dict \<Rightarrow> exn + json" where
  "create_timeline_summary exception_plan =
     (case py_iter (dict_get exception_plan ''resolution_steps'' (JArr [])) of
        Inl e \<Rightarrow> Inl e
      | Inr steps \<Rightarrow>
          (case timeline_loop steps empty_timeline of
             Inl e \<Rightarrow> Inl e
           | Inr timeline \<Rightarrow> Inr (buckets_json timeline)))"

text \<open>\<^verbatim>\<open>ExceptionHandlerAgent._assess_risk_level\<close>: a table keyed by severity.\<close>

definition risk_row :: "int \<Rightarrow> bool \<Rightarrow> bool \<Rightarrow> json" where
  "risk_row score monitoring escalation =
     JObj [(''risk_score'', JInt score), (''monitoring_required'', JBool monitoring),
           (''escalation_needed'', JBool escalation)]"

definition risk_levels :: "(string \<times> json) list" where
  "risk_levels =
     [(''low'', risk_row 2 False False),
      (''medium'', risk_row 5 True False),
      (''high'', risk_row 8 True True),
      (''critical'', risk_row 10 True True)]"

text \<open>
  \<^verbatim>\<open>table.get(key, default)\<close> on a table with string keys: an unhashable key raises, a key
  that is no string is never found.
\<close>

definition table_get :: "(string \<times> 'a) list \<Rightarrow> json \<Rightarrow> 'a \<Rightarrow> exn + 'a" where
  "table_get table key dflt =
     (if \<not> hashable key then Inl TypeError
      else case key of
             JStr k \<Rightarrow> (case map_of table k of None \<Rightarrow> Inr dflt | Some v \<Rightarrow> Inr v)
           | _ \<Rightarrow> Inr dflt)"

definition assess_risk_level :: "dict \<Rightarrow> exn + json" where
  "assess_risk_level exception_plan =
     (let severity = dict_get exception_plan ''severity'' (JStr ''medium'') in
      table_get risk_levels severity (risk_row 5 True False))"

definition policy_sources :: "policy_doc list \<Rightarrow> json" where
  "policy_sources policy_docs =
     JArr (map (\<lambda>doc. JObj [(''source'', JStr (doc_source doc)),
                            (''relevance_score'', JFloat (doc_score doc))]) policy_docs)"

text \<open>
  \<^verbatim>\<open>ExceptionHandlerAgent._enhance_exception_plan\<close>, for a plan that is a dict: a copy of the
  plan with three more entries.
\<close>

definition enhance_exception_plan :: "dict \<Rightarrow> policy_doc list \<Rightarrow> exn + dict" where
  "enhance_exception_plan exception_plan policy_docs =
     (let enhanced = dict_set exception_plan ''policy_sources'' (policy_sources policy_docs) in
      case create_timeline_summary exception_plan of
        Inl e \<Rightarrow> Inl e
      | Inr summary \<Rightarrow>
          (let enhanced = dict_set enhanced ''timeline_summary'' summary in
           case assess_risk_level exception_plan of
             Inl e \<Rightarrow> Inl e
           | Inr risk \<Rightarrow> Inr (dict_set enhanced ''risk_assessment'' risk)))"

section \<open>Workflow planner agent: enrichment of the plan\<close>

text \<open>\<^verbatim>\<open>WorkflowPlannerAgent._identify_dependencies\<close>: the loop over \<^verbatim>\<open>enumerate(steps)\<close>.\<close>

definition dependency_text :: "nat \<Rightarrow> string" where
  "dependency_text i =
     ''Step '' @ str_nat (i + 1) @ '' depends on completion of Step '' @ str_nat i"

fun dependencies_loop :: "nat \<Rightarrow> json list \<Rightarrow> json list" where
  "dependencies_loop i [] = []"
| "dependencies_loop i (step # rest) =
     (if 0 < i then [JStr (dependency_text i)] else []) @ dependencies_loop (Suc i) rest"

definition identify_dependencies :: "json \<Rightarrow> exn + json" where
  "identify_dependencies steps =
     (case py_iter steps of
        Inl e \<Rightarrow> Inl e
      | Inr xs \<Rightarrow> Inr (JArr (dependencies_loop 0 xs)))"

text \<open>\<^verbatim>\<open>range(start, stop, step)\<close> for non-negative bounds and a positive step.\<close>

function range_step :: "nat \<Rightarrow> nat \<Rightarrow> nat \<Rightarrow> nat list" where
  "range_step start stop step =
     (if start < stop \<and> 0 < step then start # range_step (start + step) stop step else [])"
  by pat_completeness auto
termination
  by (relation "measure (\<lambda>(start, stop, step). stop - start)") auto

declare range_step.simps [simp del]

text \<open>\<^verbatim>\<open>WorkflowPlannerAgent._add_checkpoints\<close>: one checkpoint per \<^verbatim>\<open>i\<close> of \<^verbatim>\<open>range(2, len(steps), 3)\<close>.\<close>

definition checkpoint :: "nat \<Rightarrow> json" where
  "checkpoint i =
     JObj [(''after_step'', JInt (int (i + 1))),
           (''checkpoint_type'', JStr ''Quality Review''),
           (''description'', JStr (''Review completion of steps 1-'' @ str_nat (i + 1))),
           (''reviewer_role'', JStr ''Supervisor'')]"

definition add_checkpoints :: "json \<Rightarrow> exn + json" where
  "add_checkpoints steps =
     (case py_len steps of
        Inl e \<Rightarrow> Inl e
      | Inr n \<Rightarrow> Inr (JArr (map checkpoint (range_step 2 n 3))))"

text \<open>\<^verbatim>\<open>WorkflowPlannerAgent._enhance_workflow\<close>, for a plan that is a dict.\<close>

definition enhance_workflow :: "dict \<Rightarrow> policy_doc list \<Rightarrow> exn + dict" where
  "enhance_workflow workflow_plan policy_docs =
     (let enhanced = dict_set workflow_plan ''policy_sources'' (policy_sources policy_docs) in
      case (case map_of enhanced ''steps'' of
              None \<Rightarrow> Inr enhanced
            | Some steps \<Rightarrow>
                (case identify_dependencies steps of
                   Inl e \<Rightarrow> Inl e
                 | Inr deps \<Rightarrow> Inr (dict_set enhanced ''dependencies'' deps))) of
        Inl e \<Rightarrow> Inl e
      | Inr enhanced \<Rightarrow>
          (case add_checkpoints (dict_get enhanced ''steps'' (JArr [])) of
             Inl e \<Rightarrow> Inl e
           | Inr checkpoints \<Rightarrow> Inr (dict_set enhanced ''checkpoints'' checkpoints)))"

section \<open>Language model service\<close>

text \<open>
  The model endpoint and \<^verbatim>\<open>json.loads\<close> are boundary collaborators. What they did in one
  call is an input of the model: either the guarded block raised (\<^verbatim>\<open>ainvoke\<close> itself, or
  \<^verbatim>\<open>json.loads\<close> with an exception other than \<^verbatim>\<open>JSONDecodeError\<close>), or \<^verbatim>\<open>ainvoke\<close> returned a
  reply, and the reply is its text together with what \<^verbatim>\<open>json.loads\<close> makes of that text
  (\<open>None\<close> when it raises \<^verbatim>\<open>JSONDecodeError\<close>).
\<close>

record llm_reply =
  reply_content :: string
  reply_decoded :: "json option"

text \<open>\<^verbatim>\<open>content[:n] + "..." if len(content) > n else content\<close>\<close>

definition truncate_dots :: "nat \<Rightarrow> string \<Rightarrow> string" where
  "truncate_dots n content = (if n < length content then take n content @ ''...'' else content)"

text \<open>\<^verbatim>\<open>LLMService._parse_fallback_response\<close>\<close>

definition parse_fallback_response :: "string \<Rightarrow> json" where
  "parse_fallback_response content =
     JObj [(''direct_answer'', JStr (truncate_dots 200 content)),
           (''requirements'', JArr []),
           (''procedures'', JArr []),
           (''exceptions'', JArr []),
           (''compliance_notes'', JArr [])]"

text \<open>\<^verbatim>\<open>LLMService._parse_workflow_fallback\<close>\<close>

definition parse_workflow_fallback :: "string \<Rightarrow> json" where
  "parse_workflow_fallback content =
     JObj [(''workflow_type'', JStr ''general_procedure''),
           (''steps'', JArr [JObj [(''step_number'', JInt 1),
                                   (''description'', JStr (truncate_dots 100 content)),
                                   (''estimated_time'', JStr ''10-15 minutes''),
                                   (''responsible_role'', JStr ''Healthcare Staff''),
                                   (''requirements'', JArr [])]]),
           (''total_duration'', JStr ''15-30 minutes''),
           (''required_roles'', JArr [JStr ''Healthcare Staff'']),
           (''compliance_requirements'', JArr [])]"

text \<open>\<^verbatim>\<open>LLMService._parse_exception_fallback\<close>\<close>

definition parse_exception_fallback :: "string \<Rightarrow> json" where
  "parse_exception_fallback content =
     JObj [(''exception_type'', JStr ''general_exception''),
           (''severity'', JStr ''medium''),
           (''immediate_actions'', JArr [JStr (truncate_dots 100 content)]),
           (''resolution_steps'',
              JArr [JObj [(''step'', JInt 1),
                          (''action'', JStr ''Review the situation and consult supervisor''),
                          (''responsible'', JStr ''Healthcare Staff''),
                          (''timeline'', JStr ''immediate'')]]),
           (''escalation_path'', JArr [JStr ''Supervisor'', JStr ''Department Manager'']),
           (''prevention_measures'', JArr [])]"

text \<open>
  The three generators share one shape: any exception of the call becomes a
  \<^verbatim>\<open>QueryProcessingError\<close>, a reply that decodes is returned as decoded, a reply that does not
  goes through the generator's fallback.
\<close>

definition generate :: "string \<Rightarrow> (string \<Rightarrow> json) \<Rightarrow> exn + llm_reply \<Rightarrow> exn + json" where
  "generate failed fallback response =
     (case response of
        Inl e \<Rightarrow> Inl (QueryProcessingError failed e)
      | Inr reply \<Rightarrow>
          (case reply_decoded reply of
             Some result \<Rightarrow> Inr result
           | None \<Rightarrow> Inr (fallback (reply_content reply))))"

definition generate_policy_interpretation :: "exn + llm_reply \<Rightarrow> exn + json" where
  "generate_policy_interpretation response =
     generate ''Policy interpretation failed: '' parse_fallback_response response"

definition generate_workflow_plan :: "exn + llm_reply \<Rightarrow> exn + json" where
  "generate_workflow_plan response =
     generate ''Workflow planning failed: '' parse_workflow_fallback response"

definition generate_exception_handling :: "exn + llm_reply \<Rightarrow> exn + json" where
  "generate_exception_handling response =
     generate ''Exception handling failed: '' parse_exception_fallback response"

subsection \<open>Routing\<close>

text \<open>
  \<^verbatim>\<open>str.lower\<close>, \<^verbatim>\<open>str.strip\<close> and \<^verbatim>\<open>str.split\<close> on ASCII text. The whitespace characters are the
  ASCII ones for which \<^verbatim>\<open>str.isspace\<close> holds: codes 9 to 13, 28 to 31 and 32.
\<close>

definition lower_char :: "char \<Rightarrow> char" where
  "lower_char c =
     (case map_of (zip ''ABCDEFGHIJKLMNOPQRSTUVWXYZ'' ''abcdefghijklmnopqrstuvwxyz'') c of
        None \<Rightarrow> c
      | Some l \<Rightarrow> l)"

definition py_lower :: "string \<Rightarrow> string" where
  "py_lower s = map lower_char s"

definition is_space :: "char \<Rightarrow> bool" where
  "is_space c = (c \<in> set [CHR 0x09, CHR 0x0A, CHR 0x0B, CHR 0x0C, CHR 0x0D,
                           CHR 0x1C, CHR 0x1D, CHR 0x1E, CHR 0x1F, CHR '' ''])"

definition py_strip :: "string \<Rightarrow> string" where
  "py_strip s = rev (dropWhile is_space (rev (dropWhile is_space s)))"

text \<open>\<^verbatim>\<open>word in text\<close> on strings: \<^verbatim>\<open>word\<close> occurs in \<^verbatim>\<open>text\<close> as a contiguous piece.\<close>

fun py_in :: "string \<Rightarrow> string \<Rightarrow> bool" where
  "py_in word [] = (word = [])"
| "py_in word (c # text) = (prefix word (c # text) \<or> py_in word text)"

text \<open>\<^verbatim>\<open>LLMService._fallback_routing\<close>\<close>

definition fallback_routing :: "string \<Rightarrow> string" where
  "fallback_routing query =
     (let query_lower = py_lower query in
      if list_ex (\<lambda>word. py_in word query_lower)
           [''policy'', ''regulation'', ''compliance'', ''rule'']
      then ''PolicyInterpreter''
      else if list_ex (\<lambda>word. py_in word query_lower)
           [''workflow'', ''procedure'', ''steps'', ''process'']
      then ''WorkflowPlanner''
      else if list_ex (\<lambda>word. py_in word query_lower)
           [''problem'', ''error'', ''exception'', ''emergency'', ''issue'']
      then ''ExceptionHandler''
      else ''PolicyInterpreter'')"

definition valid_agents :: "string list" where
  "valid_agents = [''PolicyInterpreter'', ''WorkflowPlanner'', ''ExceptionHandler'']"

text \<open>
  \<^verbatim>\<open>LLMService.route_query\<close>. The context only enters the prompt; a context that is a JSON
  dict always serialises, so building the prompt does not raise.
\<close>

definition route_query :: "string \<Rightarrow> dict \<Rightarrow> exn + llm_reply \<Rightarrow> string" where
  "route_query query context response =
     (case response of
        Inl e \<Rightarrow> fallback_routing query
      | Inr reply \<Rightarrow>
          (let agent_name = py_strip (reply_content reply) in
           if agent_name \<in> set valid_agents then agent_name
           else fallback_routing query))"

section \<open>Agents\<close>

subsection \<open>Base agent\<close>

text \<open>
  \<^verbatim>\<open>AgentState\<close> (its \<^verbatim>\<open>context\<close> field is \<open>ctx\<close> here). The reasoning trace is a list of lines; the two lines whose text formats a
  float or an exception keep the value that is formatted. The \<open>error\<close> field keeps the
  exception whose message the code stores.
\<close>

datatype reasoning_line = Plain string | ConfidenceSet real string | ErrorOccurred exn

record AgentState =
  query :: string
  ctx :: dict
  confidence :: real
  reasoning :: "reasoning_line list"
  result :: "dict option"
  error :: "exn option"

definition log_reasoning :: "AgentState \<Rightarrow> reasoning_line \<Rightarrow> AgentState" where
  "log_reasoning state step = state\<lparr>reasoning := reasoning state @ [step]\<rparr>"

definition set_confidence :: "AgentState \<Rightarrow> real \<Rightarrow> string \<Rightarrow> AgentState" where
  "set_confidence state c reason =
     log_reasoning (state\<lparr>confidence := c\<rparr>) (ConfidenceSet c reason)"

definition handle_error :: "AgentState \<Rightarrow> exn \<Rightarrow> AgentState" where
  "handle_error state e =
     log_reasoning (state\<lparr>error := Some e, confidence := 0\<rparr>) (ErrorOccurred e)"

text \<open>
  What \<^verbatim>\<open>search_similar\<close> did is an input, like the model's reply: it raised or returned
  hits. Each agent keeps the hits above its threshold.
\<close>

definition hits_above :: "real \<Rightarrow> exn + policy_doc list \<Rightarrow> exn + policy_doc list" where
  "hits_above threshold search =
     (case search of
        Inl e \<Rightarrow> Inl e
      | Inr results \<Rightarrow> Inr (filter (\<lambda>r. threshold < doc_score r) results))"

subsection \<open>Policy interpreter\<close>

fun split_loop :: "string \<Rightarrow> string \<Rightarrow> string list" where
  "split_loop cur [] = (if cur = [] then [] else [cur])"
| "split_loop cur (c # s) =
     (if is_space c then (if cur = [] then split_loop [] s else cur # split_loop [] s)
      else split_loop (cur @ [c]) s)"

text \<open>\<^verbatim>\<open>str.split()\<close>: the maximal runs of characters that are not whitespace.\<close>

definition py_split :: "string \<Rightarrow> string list" where
  "py_split s = split_loop [] s"

fun py_join :: "string \<Rightarrow> string list \<Rightarrow> string" where
  "py_join sep [] = []"
| "py_join sep [x] = x"
| "py_join sep (x # y # ys) = x @ sep @ py_join sep (y # ys)"

definition retrieve_policies :: "exn + policy_doc list \<Rightarrow> exn + policy_doc list" where
  "retrieve_policies search = hits_above 0.3 search"

definition generate_recommendations :: "dict \<Rightarrow> string list" where
  "generate_recommendations interpretation =
     (if truthy (dict_get interpretation ''requirements'' JNull)
      then [''Ensure all listed requirements are met''] else []) @
     (if truthy (dict_get interpretation ''procedures'' JNull)
      then [''Follow documented procedures in sequence''] else []) @
     (if truthy (dict_get interpretation ''compliance_notes'' JNull)
      then [''Review compliance requirements carefully''] else []) @
     [''Consult supervisor if uncertain about any aspect'']"

definition generate_next_steps :: "dict \<Rightarrow> string list" where
  "generate_next_steps interpretation =
     (if truthy (dict_get interpretation ''procedures'' JNull)
      then [''Begin with the first documented procedure''] else []) @
     [''Document all actions for audit trail'',
      ''Escalate to supervisor if exceptions apply'',
      ''Ensure compliance documentation is complete'']"

text \<open>
  \<^verbatim>\<open>PolicyInterpreterAgent._structure_response\<close>: \<^verbatim>\<open>interpretation.get\<close> exists only on a
  dict.
\<close>

definition structure_response :: "json \<Rightarrow> policy_doc list \<Rightarrow> exn + dict" where
  "structure_response interpretation policy_docs =
     (case interpretation of
        JObj d \<Rightarrow>
          Inr [(''policy_summary'', dict_get d ''direct_answer'' (JStr [])),
               (''requirements'', dict_get d ''requirements'' (JArr [])),
               (''procedures'', dict_get d ''procedures'' (JArr [])),
               (''exceptions'', dict_get d ''exceptions'' (JArr [])),
               (''compliance_notes'', dict_get d ''compliance_notes'' (JArr [])),
               (''sources'',
                  JArr (map (\<lambda>doc.
                    JObj [(''source'', JStr (doc_source doc)),
                          (''relevance_score'', JFloat (doc_score doc)),
                          (''excerpt'',
                             JStr (py_join '' '' (py_split (take 200 (doc_content doc)))
                                   @ ''...''))]) policy_docs)),
               (''recommendations'', JArr (map JStr (generate_recommendations d))),
               (''next_steps'', JArr (map JStr (generate_next_steps d)))]
      | _ \<Rightarrow> Inl AttributeError)"

text \<open>\<^verbatim>\<open>PolicyInterpreterAgent._calculate_confidence\<close>\<close>

definition policy_confidence :: "policy_doc list \<Rightarrow> json \<Rightarrow> exn + real" where
  "policy_confidence policy_docs interpretation =
     (if policy_docs = [] then Inr 0.1
      else
        let avg_relevance = sum_list (map doc_score policy_docs) / real (length policy_docs) in
        case interpretation of
          JObj d \<Rightarrow>
            (let llm_boost = (if truthy (dict_get d ''direct_answer'' JNull) then 0.2 else 0.0);
                 source_boost = min 0.2 (real (length policy_docs) * 0.05)
             in Inr (min 0.95 (avg_relevance + llm_boost + source_boost)))
        | _ \<Rightarrow> Inl AttributeError)"

text \<open>\<^verbatim>\<open>PolicyInterpreterAgent._handle_no_policies\<close>\<close>

definition handle_no_policies :: "AgentState \<Rightarrow> AgentState" where
  "handle_no_policies state =
     (let state = log_reasoning state (Plain ''No relevant policies found'');
          state = state\<lparr>result := Some
            [(''policy_summary'',
                JStr ''No specific policies found. Please consult supervisor or policy manual.''),
             (''requirements'', JArr []),
             (''procedures'', JArr []),
             (''exceptions'', JArr []),
             (''compliance_notes'', JArr []),
             (''sources'', JArr []),
             (''recommendations'',
                JArr [JStr ''Consult with supervisor for guidance'',
                      JStr ''Review complete policy documentation'',
                      JStr ''Document query for policy development review'']),
             (''next_steps'',
                JArr [JStr ''Escalate to supervisor'',
                      JStr ''Document the query'',
                      JStr ''Seek department guidance''])]\<rparr>
      in set_confidence state 0.1 ''No relevant policies found'')"

text \<open>
  \<^verbatim>\<open>PolicyInterpreterAgent.process\<close>. The state is mutated in place, so the state handed to
  \<^verbatim>\<open>handle_error\<close> carries the trace lines written before the exception.
\<close>

definition policy_interpreter_process ::
  "AgentState \<Rightarrow> exn + policy_doc list \<Rightarrow> exn + llm_reply \<Rightarrow> AgentState" where
  "policy_interpreter_process state0 search response =
     (let state = log_reasoning state0
            (Plain (''Starting LLM-powered policy interpretation: ''
                    @ take 50 (query state0) @ ''...'')) in
      case retrieve_policies search of
        Inl e \<Rightarrow> handle_error state e
      | Inr policy_docs \<Rightarrow>
          if policy_docs = [] then handle_no_policies state
          else
            let state = log_reasoning state
                  (Plain (''Retrieved '' @ str_nat (length policy_docs)
                          @ '' relevant policy documents'')) in
            case generate_policy_interpretation response of
              Inl e \<Rightarrow> handle_error state e
            | Inr interpretation \<Rightarrow>
                (case structure_response interpretation policy_docs of
                   Inl e \<Rightarrow> handle_error state e
                 | Inr structured_response \<Rightarrow>
                     (case policy_confidence policy_docs interpretation of
                        Inl e \<Rightarrow> handle_error state e
                      | Inr c \<Rightarrow>
                          (let state = set_confidence state c
                                 (''LLM interpretation with '' @ str_nat (length policy_docs)
                                  @ '' policies'');
                               state = state\<lparr>result := Some structured_response\<rparr>
                           in log_reasoning state
                                (Plain ''LLM policy interpretation completed successfully'')))))"

subsection \<open>Workflow planner\<close>

text \<open>
  \<^verbatim>\<open>plan.copy()\<close> followed by \<^verbatim>\<open>enhanced["policy_sources"] = ...\<close>: a dict goes on, a list has
  \<^verbatim>\<open>copy\<close> but no string index, every other JSON value has no \<^verbatim>\<open>copy\<close>.
\<close>

definition copy_for_enrichment :: "json \<Rightarrow> exn + dict" where
  "copy_for_enrichment plan =
     (case plan of
        JObj d \<Rightarrow> Inr d
      | JArr xs \<Rightarrow> Inl TypeError
      | _ \<Rightarrow> Inl AttributeError)"

text \<open>
  \<^verbatim>\<open>plan.get(key) and len(plan[key]) > n\<close>: the length is read only of a truthy value.
\<close>

definition longer_than :: "json \<Rightarrow> string \<Rightarrow> nat \<Rightarrow> exn + bool" where
  "longer_than plan key n =
     (case plan of
        JObj d \<Rightarrow>
          (let v = dict_get d key JNull in
           if truthy v
           then (case py_len v of Inl e \<Rightarrow> Inl e | Inr l \<Rightarrow> Inr (n < l))
           else Inr False)
      | _ \<Rightarrow> Inl AttributeError)"

text \<open>\<^verbatim>\<open>WorkflowPlannerAgent._calculate_confidence\<close>\<close>

definition workflow_confidence :: "policy_doc list \<Rightarrow> json \<Rightarrow> exn + real" where
  "workflow_confidence policy_docs workflow_plan =
     (let base_confidence = 0.8;
          policy_boost = min 0.15 (real (length policy_docs) * 0.05) in
      case longer_than workflow_plan ''steps'' 2 of
        Inl e \<Rightarrow> Inl e
      | Inr detailed \<Rightarrow>
          (let detail_boost = (if detailed then 0.05 else 0.0)
           in Inr (min 0.95 (base_confidence + policy_boost + detail_boost))))"

text \<open>\<^verbatim>\<open>WorkflowPlannerAgent.process\<close>\<close>

definition workflow_planner_process ::
  "AgentState \<Rightarrow> exn + policy_doc list \<Rightarrow> exn + llm_reply \<Rightarrow> AgentState" where
  "workflow_planner_process state0 search response =
     (let state = log_reasoning state0
            (Plain (''Starting LLM-powered workflow planning: ''
                    @ take 50 (query state0) @ ''...'')) in
      case hits_above 0.2 search of
        Inl e \<Rightarrow> handle_error state e
      | Inr policy_docs \<Rightarrow>
          (let state = log_reasoning state
                 (Plain (''Retrieved '' @ str_nat (length policy_docs)
                         @ '' relevant policies'')) in
           case generate_workflow_plan response of
             Inl e \<Rightarrow> handle_error state e
           | Inr workflow_plan \<Rightarrow>
               (case (case copy_for_enrichment workflow_plan of
                        Inl e \<Rightarrow> Inl e
                      | Inr d \<Rightarrow> enhance_workflow d policy_docs) of
                  Inl e \<Rightarrow> handle_error state e
                | Inr enhanced_workflow \<Rightarrow>
                    (case workflow_confidence policy_docs workflow_plan of
                       Inl e \<Rightarrow> handle_error state e
                     | Inr c \<Rightarrow>
                         (let state = set_confidence state c
                                (''LLM workflow with '' @ str_nat (length policy_docs)
                                 @ '' policies'');
                              state = state\<lparr>result := Some enhanced_workflow\<rparr>
                          in log_reasoning state
                               (Plain ''LLM workflow planning completed successfully''))))))"

subsection \<open>Exception handler\<close>

text \<open>\<^verbatim>\<open>ExceptionHandlerAgent._calculate_confidence\<close>\<close>

definition severity_adjustments :: "(string \<times> real) list" where
  "severity_adjustments =
     [(''low'', 0.05), (''medium'', 0.0), (''high'', - 0.05), (''critical'', - 0.1)]"

definition exception_confidence :: "policy_doc list \<Rightarrow> json \<Rightarrow> exn + real" where
  "exception_confidence policy_docs exception_plan =
     (let base_confidence = 0.75;
          policy_boost = min 0.15 (real (length policy_docs) * 0.05) in
      case longer_than exception_plan ''resolution_steps'' 1 of
        Inl e \<Rightarrow> Inl e
      | Inr detailed \<Rightarrow>
          (let detail_boost = (if detailed then 0.05 else 0.0) in
           case exception_plan of
             JObj d \<Rightarrow>
               (case table_get severity_adjustments
                       (dict_get d ''severity'' (JStr ''medium'')) 0.0 of
                  Inl e \<Rightarrow> Inl e
                | Inr severity_adjustment \<Rightarrow>
                    Inr (min 0.95
                          (base_confidence + policy_boost + detail_boost + severity_adjustment)))
           | _ \<Rightarrow> Inl AttributeError))"

text \<open>\<^verbatim>\<open>ExceptionHandlerAgent.process\<close>\<close>

definition exception_handler_process ::
  "AgentState \<Rightarrow> exn + policy_doc list \<Rightarrow> exn + llm_reply \<Rightarrow> AgentState" where
  "exception_handler_process state0 search response =
     (let state = log_reasoning state0
            (Plain (''Starting LLM-powered exception handling: ''
                    @ take 50 (query state0) @ ''...'')) in
      case hits_above 0.2 search of
        Inl e \<Rightarrow> handle_error state e
      | Inr policy_docs \<Rightarrow>
          (let state = log_reasoning state
                 (Plain (''Retrieved '' @ str_nat (length policy_docs)
                         @ '' relevant policies'')) in
           case generate_exception_handling response of
             Inl e \<Rightarrow> handle_error state e
           | Inr exception_plan \<Rightarrow>
               (case (case copy_for_enrichment exception_plan of
                        Inl e \<Rightarrow> Inl e
                      | Inr d \<Rightarrow> enhance_exception_plan d policy_docs) of
                  Inl e \<Rightarrow> handle_error state e
                | Inr enhanced_plan \<Rightarrow>
                    (case exception_confidence policy_docs exception_plan of
                       Inl e \<Rightarrow> handle_error state e
                     | Inr c \<Rightarrow>
                         (let state = set_confidence state c
                                (''LLM exception handling with '' @ str_nat (length policy_docs)
                                 @ '' policies'');
                              state = state\<lparr>result := Some enhanced_plan\<rparr>
                          in log_reasoning state
                               (Plain ''LLM exception handling completed successfully''))))))"

section \<open>Document service\<close>

text \<open>The two settings the document processor reads, with their defaults.\<close>

record Settings =
  max_file_size_mb :: int
  supported_file_types :: string

definition default_settings :: Settings where
  "default_settings = \<lparr>max_file_size_mb = 50, supported_file_types = ''pdf,txt,docx''\<rparr>"

record DocumentProcessor =
  upload_dir :: string
  processed_dir :: string
  supported_types :: "string list"
  max_size_bytes :: int

text \<open>\<^verbatim>\<open>s.split(sep)\<close> for a one-character separator: never empty, pieces may be.\<close>

fun split_on :: "char \<Rightarrow> string \<Rightarrow> string list" where
  "split_on sep [] = [[]]"
| "split_on sep (c # s) =
     (if c = sep then [] # split_on sep s
      else case split_on sep s of
             piece # pieces \<Rightarrow> (c # piece) # pieces
           | [] \<Rightarrow> [[c]])"

text \<open>\<^verbatim>\<open>DocumentProcessor.__init__\<close>\<close>

definition new_document_processor :: "Settings \<Rightarrow> DocumentProcessor" where
  "new_document_processor settings =
     \<lparr>upload_dir = ''./data/uploads'',
      processed_dir = ''./data/processed'',
      supported_types = split_on CHR '','' (supported_file_types settings),
      max_size_bytes = max_file_size_mb settings * 1024 * 1024\<rparr>"

text \<open>
  \<^verbatim>\<open>Path(filename).suffix\<close> on a POSIX path, as \<^verbatim>\<open>pathlib\<close> computes it up to Python 3.13:
  the name is the last component that is neither empty nor \<^verbatim>\<open>.\<close>, and the suffix starts at
  the last dot of the name when that dot is neither its first nor its last character.
\<close>

definition path_name :: "string \<Rightarrow> string" where
  "path_name filename =
     (case filter (\<lambda>part. part \<noteq> [] \<and> part \<noteq> ''.'') (split_on CHR ''/'' filename) of
        [] \<Rightarrow> []
      | part # parts \<Rightarrow> last (part # parts))"

definition rfind_dot :: "string \<Rightarrow> nat option" where
  "rfind_dot name =
     (if CHR ''.'' \<in> set name
      then Some (length name - 1 - length (takeWhile (\<lambda>c. c \<noteq> CHR ''.'') (rev name)))
      else None)"

definition path_suffix :: "string \<Rightarrow> string" where
  "path_suffix filename =
     (let name = path_name filename in
      case rfind_dot name of
        None \<Rightarrow> []
      | Some i \<Rightarrow> if 0 < i \<and> i < length name - 1 then drop i name else [])"

text \<open>
  The error of \<^verbatim>\<open>validate_file\<close>, with the values its message is formatted from: the size
  and the limit, or the extension and the supported types; then the file name.
\<close>

datatype DocumentProcessingError =
    FileSizeExceeds int int string
  | FileTypeNotSupported string "string list" string

text \<open>
  \<^verbatim>\<open>DocumentProcessor.validate_file\<close>. The result is paired with the processor after the
  call.
\<close>

definition validate_file ::
  "DocumentProcessor \<Rightarrow> string \<Rightarrow> int \<Rightarrow> string
     \<Rightarrow> (DocumentProcessingError + unit) \<times> DocumentProcessor" where
  "validate_file self filename file_size content_type =
     (if max_size_bytes self < file_size
      then (Inl (FileSizeExceeds file_size (max_size_bytes self) filename), self)
      else
        let file_ext = dropWhile (\<lambda>c. c = CHR ''.'') (py_lower (path_suffix filename)) in
        if file_ext \<notin> set (supported_types self)
        then (Inl (FileTypeNotSupported file_ext (supported_types self) filename), self)
        else (Inr (), self))"

section \<open>Rate limiter\<close>

text \<open>
  A \<^verbatim>\<open>datetime\<close> is its number of microseconds since the epoch. The \<^verbatim>\<open>seconds\<close> attribute of
  a \<^verbatim>\<open>timedelta\<close> is the seconds field of its normal form (days, seconds in 0..86399,
  microseconds in 0..999999), not the whole duration.
\<close>

definition timedelta_seconds :: "int \<Rightarrow> int" where
  "timedelta_seconds delta_us = (delta_us div 1000000) mod 86400"

record RateLimiter =
  requests :: "string \<Rightarrow> int list option"

definition new_rate_limiter :: RateLimiter where
  "new_rate_limiter = \<lparr>requests = Map.empty\<rparr>"

text \<open>\<^verbatim>\<open>RateLimiter.is_allowed\<close>, with the clock reading \<open>now\<close> as an argument.\<close>

definition is_allowed ::
  "RateLimiter \<Rightarrow> int \<Rightarrow> string \<Rightarrow> int \<Rightarrow> int \<Rightarrow> bool \<times> RateLimiter" where
  "is_allowed self now key limit window =
     (let recorded = (case requests self key of None \<Rightarrow> [] | Some stamps \<Rightarrow> stamps);
          kept = filter (\<lambda>req_time. timedelta_seconds (now - req_time) < window) recorded
      in if int (length kept) < limit
         then (True, self\<lparr>requests := (requests self)(key \<mapsto> kept @ [now])\<rparr>)
         else (False, self\<lparr>requests := (requests self)(key \<mapsto> kept)\<rparr>))"

section \<open>Evaluation service\<close>

text \<open>
  A retrieved document as the evaluation reads it: \<^verbatim>\<open>doc.get('content', '')\<close> and
  \<^verbatim>\<open>doc.get('score', 0.0)\<close>, so either entry may be missing.
\<close>

record eval_doc =
  content_opt :: "string option"
  score_opt :: "real option"

definition doc_text :: "eval_doc \<Rightarrow> string" where
  "doc_text doc = (case content_opt doc of None \<Rightarrow> [] | Some text \<Rightarrow> text)"

definition doc_score_or_zero :: "eval_doc \<Rightarrow> real" where
  "doc_score_or_zero doc = (case score_opt doc of None \<Rightarrow> 0 | Some x \<Rightarrow> x)"

text \<open>
  \<^verbatim>\<open>set(text.lower().split())\<close> as a list without repetitions; \<^verbatim>\<open>len\<close> of the set is its
  length, and the size of an intersection counts the members found in the other set.
\<close>

definition word_set :: "string \<Rightarrow> string list" where
  "word_set text = remdups (py_split (py_lower text))"

definition overlap_count :: "string list \<Rightarrow> string list \<Rightarrow> nat" where
  "overlap_count xs ys = length (filter (\<lambda>w. w \<in> set ys) xs)"

text \<open>\<^verbatim>\<open>a / b\<close> on numbers.\<close>

definition py_div :: "real \<Rightarrow> real \<Rightarrow> exn + real" where
  "py_div a b = (if b = 0 then Inl ZeroDivisionError else Inr (a / b))"

text \<open>\<^verbatim>\<open>EvaluationService._calculate_answer_relevance\<close>\<close>

definition calculate_answer_relevance :: "string \<Rightarrow> string \<Rightarrow> real" where
  "calculate_answer_relevance q answer =
     (if answer = [] \<or> q = [] then 0
      else
        let query_words = word_set q;
            answer_words = word_set answer;
            overlap = overlap_count query_words answer_words;
            relevance = (if query_words \<noteq> [] then real overlap / real (length query_words)
                         else 0);
            relevance = (if length answer < 50 then relevance * 0.7 else relevance)
        in min relevance 1)"

text \<open>\<^verbatim>\<open>EvaluationService._calculate_faithfulness\<close>\<close>

definition calculate_faithfulness :: "string \<Rightarrow> eval_doc list \<Rightarrow> real" where
  "calculate_faithfulness answer retrieved_docs =
     (if retrieved_docs = [] \<or> answer = [] then 0
      else
        let answer_words = word_set answer;
            doc_words = remdups (concat (map (\<lambda>doc. py_split (py_lower (doc_text doc)))
                                           retrieved_docs))
        in if answer_words = [] then 0
           else min (real (overlap_count answer_words doc_words)
                       / real (length answer_words)) 1)"

text \<open>
  \<^verbatim>\<open>EvaluationService._calculate_context_precision\<close>: the loop divides by the number of
  answer words for each document.
\<close>

fun precision_loop :: "string list \<Rightarrow> eval_doc list \<Rightarrow> nat \<Rightarrow> exn + nat" where
  "precision_loop answer_words [] relevant_count = Inr relevant_count"
| "precision_loop answer_words (doc # rest) relevant_count =
     (let doc_words = word_set (doc_text doc);
          overlap = overlap_count answer_words doc_words
      in case py_div (real overlap) (real (length answer_words)) of
           Inl e \<Rightarrow> Inl e
         | Inr ratio \<Rightarrow>
             precision_loop answer_words rest
               (if 0.2 < ratio then relevant_count + 1 else relevant_count))"

definition calculate_context_precision :: "eval_doc list \<Rightarrow> string \<Rightarrow> exn + real" where
  "calculate_context_precision retrieved_docs answer =
     (if retrieved_docs = [] then Inr 0
      else
        case precision_loop (word_set answer) retrieved_docs 0 of
          Inl e \<Rightarrow> Inl e
        | Inr relevant_count \<Rightarrow> Inr (real relevant_count / real (length retrieved_docs)))"

text \<open>\<^verbatim>\<open>EvaluationService._calculate_context_recall\<close>\<close>

definition calculate_context_recall :: "eval_doc list \<Rightarrow> string \<Rightarrow> real" where
  "calculate_context_recall retrieved_docs answer =
     (if retrieved_docs = [] then 0
      else min (sum_list (map doc_score_or_zero retrieved_docs)
                  / real (length retrieved_docs)) 1)"

text \<open>\<^verbatim>\<open>EvaluationService._evaluate_retrieval_quality\<close>\<close>

record retrieval_quality =
  quality :: string
  quality_score :: real
  num_docs :: "nat option"
  top_score :: "real option"

definition evaluate_retrieval_quality :: "eval_doc list \<Rightarrow> retrieval_quality" where
  "evaluate_retrieval_quality retrieved_docs =
     (if retrieved_docs = []
      then \<lparr>quality = ''poor'', quality_score = 0, num_docs = None, top_score = None\<rparr>
      else
        let scores = map doc_score_or_zero retrieved_docs;
            avg_score = sum_list scores / real (length scores)
        in \<lparr>quality = (if 0.8 < avg_score then ''excellent''
                        else if 0.6 < avg_score then ''good''
                        else if 0.4 < avg_score then ''fair''
                        else ''poor''),
            quality_score = avg_score,
            num_docs = Some (length retrieved_docs),
            top_score = Some (fold max (tl scores) (hd scores))\<rparr>)"

text \<open>\<^verbatim>\<open>EvaluationService._check_response_completeness\<close>\<close>

record response_completeness =
  has_content :: bool
  min_length_met :: bool
  has_structure :: bool
  is_complete :: bool

definition check_response_completeness :: "string \<Rightarrow> response_completeness" where
  "check_response_completeness answer =
     \<lparr>has_content = (0 < length (py_strip answer)),
      min_length_met = (20 \<le> length answer),
      has_structure = list_ex (\<lambda>marker. py_in marker answer) [''.'', '':'', [CHR 0x0A]],
      is_complete = (\<not> suffix ''...'' answer)\<rparr>"

text \<open>\<^verbatim>\<open>EvaluationService._calculate_accuracy\<close>\<close>

definition calculate_accuracy :: "string \<Rightarrow> string \<Rightarrow> real" where
  "calculate_accuracy answer ground_truth =
     (let answer_words = word_set answer;
          truth_words = word_set ground_truth
      in if truth_words = [] then 0
         else real (overlap_count answer_words truth_words) / real (length truth_words))"

record rag_metrics =
  answer_relevance :: real
  faithfulness :: real
  context_precision :: real
  context_recall :: real
  retrieval :: retrieval_quality
  completeness :: response_completeness
  timestamp :: real
  accuracy :: "real option"
  overall_score :: real

text \<open>\<^verbatim>\<open>EvaluationService._calculate_overall_score\<close> on the four weighted metrics.\<close>

definition calculate_overall_score :: "real \<Rightarrow> real \<Rightarrow> real \<Rightarrow> real \<Rightarrow> real" where
  "calculate_overall_score relevance faith precision recall =
     min (relevance * 0.3 + faith * 0.3 + precision * 0.2 + recall * 0.2) 1"

record EvaluationService =
  metrics_history :: "rag_metrics list"

text \<open>
  \<^verbatim>\<open>EvaluationService.evaluate_rag_response\<close>, with the clock reading as an argument. The
  metrics are computed in the order of the dict literal; an exception leaves the history
  as it was.
\<close>

definition evaluate_rag_response ::
  "EvaluationService \<Rightarrow> real \<Rightarrow> string \<Rightarrow> string \<Rightarrow> eval_doc list \<Rightarrow> string option
     \<Rightarrow> (exn + rag_metrics) \<times> EvaluationService" where
  "evaluate_rag_response self now q answer retrieved_docs ground_truth =
     (let relevance = calculate_answer_relevance q answer;
          faith = calculate_faithfulness answer retrieved_docs
      in case calculate_context_precision retrieved_docs answer of
           Inl e \<Rightarrow> (Inl e, self)
         | Inr precision \<Rightarrow>
             (let recall = calculate_context_recall retrieved_docs answer;
                  metrics =
                    \<lparr>answer_relevance = relevance,
                     faithfulness = faith,
                     context_precision = precision,
                     context_recall = recall,
                     retrieval = evaluate_retrieval_quality retrieved_docs,
                     completeness = check_response_completeness answer,
                     timestamp = now,
                     accuracy = (case ground_truth of
                                   None \<Rightarrow> None
                                 | Some truth \<Rightarrow>
                                     if truth = [] then None
                                     else Some (calculate_accuracy answer truth)),
                     overall_score = calculate_overall_score relevance faith precision recall\<rparr>
              in (Inr metrics, self\<lparr>metrics_history := metrics_history self @ [metrics]\<rparr>)))"

section \<open>Guardrails service\<close>

subsection \<open>The regular expressions of the service\<close>

text \<open>
  The patterns of the service use literals, character classes, repetition of a character
  class (greedy or lazy), \<^verbatim>\<open>\b\<close>, sequence and alternation. They are matched as \<^verbatim>\<open>re\<close> does
  with \<^verbatim>\<open>re.IGNORECASE\<close> on ASCII text: by backtracking, leftmost match first, alternatives
  in the order written, a greedy repetition trying the longest run first and a lazy one the
  shortest.
\<close>

definition upper_char :: "char \<Rightarrow> char" where
  "upper_char c =
     (case map_of (zip ''abcdefghijklmnopqrstuvwxyz'' ''ABCDEFGHIJKLMNOPQRSTUVWXYZ'') c of
        None \<Rightarrow> c
      | Some u \<Rightarrow> u)"

definition py_upper :: "string \<Rightarrow> string" where
  "py_upper s = map upper_char s"

datatype charset = In "char list" | NotIn "char list"

datatype regex =
    Chars string
  | OneOf charset
  | Repeat charset nat "nat option" bool
  | WordBoundary
  | Seq regex regex
  | Or regex regex

text \<open>
  Under \<^verbatim>\<open>re.IGNORECASE\<close> a character is in a class when it, its lowercase or its uppercase
  form is listed.
\<close>

definition listed :: "char list \<Rightarrow> char \<Rightarrow> bool" where
  "listed cs c = (c \<in> set cs \<or> lower_char c \<in> set cs \<or> upper_char c \<in> set cs)"

fun cs_match :: "charset \<Rightarrow> char \<Rightarrow> bool" where
  "cs_match (In cs) c = listed cs c"
| "cs_match (NotIn cs) c = (\<not> listed cs c)"

definition letters :: string where
  "letters = ''ABCDEFGHIJKLMNOPQRSTUVWXYZabcdefghijklmnopqrstuvwxyz''"

definition digits :: string where
  "digits = ''0123456789''"

definition whitespace :: string where
  "whitespace = [CHR 0x09, CHR 0x0A, CHR 0x0B, CHR 0x0C, CHR 0x0D,
                 CHR 0x1C, CHR 0x1D, CHR 0x1E, CHR 0x1F, CHR '' '']"

definition is_word :: "char \<Rightarrow> bool" where
  "is_word c = (c \<in> set (letters @ digits @ ''_''))"

text \<open>\<^verbatim>\<open>\b\<close>: exactly one of the characters before and after the position is a word character.\<close>

definition word_boundary :: "string \<Rightarrow> nat \<Rightarrow> bool" where
  "word_boundary text pos =
     ((0 < pos \<and> pos \<le> length text \<and> is_word (text ! (pos - 1)))
      \<noteq> (pos < length text \<and> is_word (text ! pos)))"

text \<open>
  The positions at which a match of the expression starting at \<open>pos\<close> can end, in the
  order backtracking tries them.
\<close>

fun ends :: "regex \<Rightarrow> string \<Rightarrow> nat \<Rightarrow> nat list" where
  "ends (Chars s) text pos =
     (if map lower_char (take (length s) (drop pos text)) = map lower_char s
      then [pos + length s] else [])"
| "ends (OneOf cs) text pos =
     (if pos < length text \<and> cs_match cs (text ! pos) then [pos + 1] else [])"
| "ends (Repeat cs lo hi greedy) text pos =
     (let run = length (takeWhile (cs_match cs) (drop pos text));
          most = (case hi of None \<Rightarrow> run | Some h \<Rightarrow> min h run);
          counts = [lo..<Suc most]
      in map (\<lambda>n. pos + n) (if greedy then rev counts else counts))"
| "ends WordBoundary text pos = (if word_boundary text pos then [pos] else [])"
| "ends (Seq r1 r2) text pos = concat (map (ends r2 text) (ends r1 text pos))"
| "ends (Or r1 r2) text pos = ends r1 text pos @ ends r2 text pos"


text \<open>
  \<^verbatim>\<open>re.sub\<close> with a replacement that has no escapes. The scan copies characters up to the
  next match, writes the replacement and goes on after the match; after an empty match the
  next match at the same position must be non-empty (\<open>must_advance\<close>).
\<close>

function sub_loop :: "regex \<Rightarrow> string \<Rightarrow> string \<Rightarrow> nat \<Rightarrow> bool \<Rightarrow> string" where
  "sub_loop pattern repl text pos must_advance =
     (if length text < pos then []
      else
        case filter (\<lambda>e. \<not> must_advance \<or> pos < e) (ends pattern text pos) of
          e # es \<Rightarrow>
            if pos < e then repl @ sub_loop pattern repl text e False
            else repl @ sub_loop pattern repl text pos True
        | [] \<Rightarrow>
            if pos < length text
            then text ! pos # sub_loop pattern repl text (Suc pos) False
            else [])"
  by pat_completeness auto
termination
  by (relation "measure (\<lambda>(pattern, repl, text, pos, must_advance).
         2 * (Suc (length text) - pos) + (if must_advance then 0 else 1))")
     (auto split: if_splits simp: filter_eq_Cons_iff)

declare sub_loop.simps [simp del]

definition re_sub :: "regex \<Rightarrow> string \<Rightarrow> string \<Rightarrow> string" where
  "re_sub pattern repl text = sub_loop pattern repl text 0 False"

fun seq :: "regex list \<Rightarrow> regex" where
  "seq [] = Chars []"
| "seq [r] = r"
| "seq (r # rs) = Seq r (seq rs)"

definition exactly :: "nat \<Rightarrow> charset \<Rightarrow> regex" where
  "exactly n cs = Repeat cs n (Some n) True"

definition optional :: "charset \<Rightarrow> regex" where
  "optional cs = Repeat cs 0 (Some 1) True"

definition one_or_more :: "charset \<Rightarrow> regex" where
  "one_or_more cs = Repeat cs 1 None True"

text \<open>\<^verbatim>\<open>GuardrailsService.PII_PATTERNS\<close>, in the order of the dict.\<close>

definition PII_PATTERNS :: "(string \<times> regex) list" where
  "PII_PATTERNS =
     [(''ssn'',
         seq [WordBoundary, exactly 3 (In digits), Chars ''-'', exactly 2 (In digits),
              Chars ''-'', exactly 4 (In digits), WordBoundary]),
      (''phone'',
         seq [WordBoundary, exactly 3 (In digits), optional (In ''-.''),
              exactly 3 (In digits), optional (In ''-.''), exactly 4 (In digits),
              WordBoundary]),
      (''email'',
         seq [WordBoundary, one_or_more (In (letters @ digits @ ''._%+-'')), Chars ''@'',
              one_or_more (In (letters @ digits @ ''.-'')), Chars ''.'',
              Repeat (In (letters @ ''|'')) 2 None True, WordBoundary]),
      (''mrn'',
         seq [WordBoundary, Or (Chars ''MRN'') (Chars ''Medical Record Number''),
              Repeat (In ('':'' @ whitespace)) 0 None True,
              Repeat (In digits) 6 (Some 10) True, WordBoundary]),
      (''dob'',
         seq [WordBoundary, Repeat (In digits) 1 (Some 2) True, OneOf (In ''/-''),
              Repeat (In digits) 1 (Some 2) True, OneOf (In ''/-''),
              Repeat (In digits) 2 (Some 4) True, WordBoundary]),
      (''credit_card'',
         seq [WordBoundary, exactly 4 (In digits), optional (In (''-'' @ whitespace)),
              exactly 4 (In digits), optional (In (''-'' @ whitespace)),
              exactly 4 (In digits), optional (In (''-'' @ whitespace)),
              exactly 4 (In digits), WordBoundary])]"

text \<open>\<^verbatim>\<open>GuardrailsService.PROHIBITED_PATTERNS\<close>\<close>

definition PROHIBITED_PATTERNS :: "regex list" where
  "PROHIBITED_PATTERNS =
     [seq [WordBoundary,
           Or (Chars ''password'')
             (Or (Chars ''secret'')
               (Or (seq [Chars ''api'', optional (In ''_-''), Chars ''key''])
                 (Chars ''token''))),
           WordBoundary],
      seq [WordBoundary,
           Or (Chars ''inject'')
             (Or (seq [Chars ''drop'', one_or_more (In whitespace), Chars ''table''])
               (seq [Chars ''union'', one_or_more (In whitespace), Chars ''select''])),
           WordBoundary],
      seq [Chars ''<script'', Repeat (NotIn ''>'') 0 None True, Chars ''>'',
           Repeat (NotIn [CHR 0x0A]) 0 None False, Chars ''</script>'']]"

subsection \<open>Detection and sanitation\<close>



text \<open>\<^verbatim>\<open>GuardrailsService.sanitize_output\<close>: one substitution per pattern, in order.\<close>

definition redact :: "string \<Rightarrow> (string \<times> regex) list \<Rightarrow> string" where
  "redact text patterns =
     fold (\<lambda>(pii_type, pattern) sanitized.
             re_sub pattern (''[REDACTED_'' @ py_upper pii_type @ '']'') sanitized)
          patterns text"

definition remove_prohibited :: "string \<Rightarrow> regex list \<Rightarrow> string" where
  "remove_prohibited text patterns =
     fold (\<lambda>pattern sanitized. re_sub pattern ''[REMOVED]'' sanitized) patterns text"

definition sanitize_output :: "string \<Rightarrow> string" where
  "sanitize_output text = remove_prohibited (redact text PII_PATTERNS) PROHIBITED_PATTERNS"

section \<open>What the properties are stated with\<close>

text \<open>The timeline and the action of a resolution step, with the defaults of \<^verbatim>\<open>step.get\<close>.\<close>

definition step_timeline :: "dict \<Rightarrow> json" where
  "step_timeline step = dict_get step ''timeline'' (JStr ''short_term'')"

definition step_action :: "dict \<Rightarrow> json" where
  "step_action step = dict_get step ''action'' (JStr [])"

text \<open>The actions of the steps whose timeline is the given name, in the order of the steps.\<close>

definition actions_at :: "string \<Rightarrow> dict list \<Rightarrow> json list" where
  "actions_at name steps =
     map step_action (filter (\<lambda>step. step_timeline step = JStr name) steps)"

text \<open>The dependency sentence of step \<open>i\<close> and the checkpoint after step \<open>m\<close>, as the specification words them.\<close>

definition dependency_sentence :: "nat \<Rightarrow> json" where
  "dependency_sentence i =
     JStr (''Step '' @ str_nat i @ '' depends on completion of Step '' @ str_nat (i - 1))"

definition quality_review :: "nat \<Rightarrow> json" where
  "quality_review m =
     JObj [(''after_step'', JInt (int m)),
           (''checkpoint_type'', JStr ''Quality Review''),
           (''description'', JStr (''Review completion of steps 1-'' @ str_nat m)),
           (''reviewer_role'', JStr ''Supervisor'')]"

text \<open>
  Keyword routing as the specification words it: the lowercased query contains one of the
  keywords of a group, the groups tried in order.
\<close>

definition mentions :: "string list \<Rightarrow> string \<Rightarrow> bool" where
  "mentions keywords q = (\<exists>word \<in> set keywords. sublist word (py_lower q))"

definition keyword_routing :: "string \<Rightarrow> string" where
  "keyword_routing q =
     (if mentions [''policy'', ''regulation'', ''compliance'', ''rule''] q
        then ''PolicyInterpreter''
      else if mentions [''workflow'', ''procedure'', ''steps'', ''process''] q
        then ''WorkflowPlanner''
      else if mentions [''problem'', ''error'', ''exception'', ''emergency'', ''issue''] q
        then ''ExceptionHandler''
      else ''PolicyInterpreter'')"

text \<open>The lowercase extension of a file name, stripped of the leading dot.\<close>

definition extension :: "string \<Rightarrow> string" where
  "extension filename = dropWhile (\<lambda>c. c = CHR ''.'') (py_lower (path_suffix filename))"

section \<open>Properties\<close>

subsection \<open>Dictionaries\<close>

lemma map_of_dict_set: "map_of (dict_set d k v) k' = (if k' = k then Some v else map_of d k')"
  by (induction d) auto

lemma dict_get_dict_set:
  "dict_get (dict_set d k v) k' dflt = (if k' = k then v else dict_get d k' dflt)"
  by (simp add: dict_get_def map_of_dict_set)

subsection \<open>Timeline summary of an exception plan\<close>

lemma timeline_loop_buckets:
  "\<forall>s \<in> set steps. hashable (step_timeline s) \<Longrightarrow>
   timeline_loop (map JObj steps)
     [(''immediate'', a), (''short_term'', b), (''long_term'', c)] =
   Inr [(''immediate'', a @ actions_at ''immediate'' steps),
        (''short_term'', b @ actions_at ''short_term'' steps),
        (''long_term'', c @ actions_at ''long_term'' steps)]"
proof (induction steps arbitrary: a b c)
  case Nil
  then show ?case by (simp add: actions_at_def)
next
  case (Cons s steps)
  then have h: "hashable (step_timeline s)"
    and rest: "\<forall>s \<in> set steps. hashable (step_timeline s)"
    by simp_all
  note IH = Cons.IH [OF rest]
  show ?case
  proof (cases "step_timeline s")
    case (JStr k)
    then show ?thesis
      using IH by (auto simp: actions_at_def step_timeline_def step_action_def)
  qed (use h IH in \<open>auto simp: actions_at_def step_timeline_def step_action_def\<close>)
qed

text \<open>
  C2, as stated, fails: a step whose timeline is a string other than the three bucket names
  is put in no bucket. With one step \<^verbatim>\<open>{"action": "Call the vendor", "timeline": "1 hour"}\<close>
  all three buckets are empty, so the summary is not the one with the action under
  \<^verbatim>\<open>short_term\<close>.
\<close>

theorem timeline_unrecognized_dropped:
  "create_timeline_summary
     [(''resolution_steps'',
       JArr [JObj [(''action'', JStr ''Call the vendor''), (''timeline'', JStr ''1 hour'')]])]
   = Inr (JObj [(''immediate'', JArr []), (''short_term'', JArr []), (''long_term'', JArr [])])
   \<and> create_timeline_summary
     [(''resolution_steps'',
       JArr [JObj [(''action'', JStr ''Call the vendor''), (''timeline'', JStr ''1 hour'')]])]
   \<noteq> Inr (JObj [(''immediate'', JArr []), (''short_term'', JArr [JStr ''Call the vendor'']),
                 (''long_term'', JArr [])])"
  by (simp add: create_timeline_summary_def dict_get_def empty_timeline_def buckets_json_def)

text \<open>
  C2, amended: for a plan whose resolution steps are a list of dicts with hashable timeline
  values, the summary has the three buckets immediate, short-term and long-term; each bucket
  holds, in the order of the steps, the action (or the empty string when the step has none)
  of every step whose timeline is the bucket's name, a step without a timeline counting as
  short-term. A step with any other timeline value is in no bucket.
\<close>

theorem create_timeline_summary_buckets:
  assumes "dict_get plan ''resolution_steps'' (JArr []) = JArr (map JObj steps)"
    and "\<forall>s \<in> set steps. hashable (step_timeline s)"
  shows "create_timeline_summary plan =
     Inr (JObj [(''immediate'', JArr (actions_at ''immediate'' steps)),
                (''short_term'', JArr (actions_at ''short_term'' steps)),
                (''long_term'', JArr (actions_at ''long_term'' steps))])"
  using assms(1) timeline_loop_buckets [OF assms(2), of "[]" "[]" "[]"]
  by (simp add: create_timeline_summary_def empty_timeline_def buckets_json_def)

theorem create_timeline_summary_buckets_witness:
  "create_timeline_summary
     [(''resolution_steps'',
       JArr [JObj [(''action'', JStr ''Isolate the record'')],
             JObj [(''action'', JStr ''Call the vendor''), (''timeline'', JStr ''1 hour'')],
             JObj [(''action'', JStr ''Notify the supervisor''),
                   (''timeline'', JStr ''immediate'')],
             JObj [(''action'', JStr ''Review the policy''), (''timeline'', JStr ''long_term'')],
             JObj [(''action'', JStr ''File the report''),
                   (''timeline'', JStr ''short_term'')]])]
   = Inr (JObj [(''immediate'', JArr [JStr ''Notify the supervisor'']),
                (''short_term'', JArr [JStr ''Isolate the record'', JStr ''File the report'']),
                (''long_term'', JArr [JStr ''Review the policy''])])"
  using create_timeline_summary_buckets
    [of "[(''resolution_steps'',
       JArr [JObj [(''action'', JStr ''Isolate the record'')],
             JObj [(''action'', JStr ''Call the vendor''), (''timeline'', JStr ''1 hour'')],
             JObj [(''action'', JStr ''Notify the supervisor''),
                   (''timeline'', JStr ''immediate'')],
             JObj [(''action'', JStr ''Review the policy''), (''timeline'', JStr ''long_term'')],
             JObj [(''action'', JStr ''File the report''),
                   (''timeline'', JStr ''short_term'')]])]"
        "[[(''action'', JStr ''Isolate the record'')],
          [(''action'', JStr ''Call the vendor''), (''timeline'', JStr ''1 hour'')],
          [(''action'', JStr ''Notify the supervisor''), (''timeline'', JStr ''immediate'')],
          [(''action'', JStr ''Review the policy''), (''timeline'', JStr ''long_term'')],
          [(''action'', JStr ''File the report''), (''timeline'', JStr ''short_term'')]]"]
  by (simp add: dict_get_def step_timeline_def step_action_def actions_at_def)

subsection \<open>Risk assessment of an exception plan\<close>

text \<open>
  C5, as stated, fails: not every severity outside the four names gives the medium row. A
  severity that is a JSON array, as in \<^verbatim>\<open>{"severity": ["high"]}\<close>, cannot be looked up in the
  table: \<^verbatim>\<open>risk_levels.get\<close> raises \<^verbatim>\<open>TypeError\<close> and no risk assessment is produced.
\<close>

theorem assess_risk_level_array_severity:
  "assess_risk_level
     [(''exception_type'', JStr ''outage''), (''severity'', JArr [JStr ''high''])]
   = Inl TypeError
   \<and> assess_risk_level
     [(''exception_type'', JStr ''outage''), (''severity'', JArr [JStr ''high''])]
   \<noteq> Inr (JObj [(''risk_score'', JInt 5), (''monitoring_required'', JBool True),
                 (''escalation_needed'', JBool False)])"
  by (simp add: assess_risk_level_def table_get_def dict_get_def)

text \<open>
  C5, amended: for every plan whose severity is missing or is a JSON value that Python can
  look up in a dict (a string, a number, a boolean or null), the risk assessment is
  produced and is the row of the severity: low gives score 2 without monitoring or
  escalation, high gives 8 with both, critical gives 10 with both, and every other such
  severity, as well as a plan without one, gives the medium row, score 5 with monitoring
  and without escalation.
\<close>

theorem assess_risk_level_table:
  assumes "hashable (dict_get plan ''severity'' (JStr ''medium''))"
  shows "assess_risk_level plan =
     Inr (if dict_get plan ''severity'' (JStr ''medium'') = JStr ''low''
            then risk_row 2 False False
          else if dict_get plan ''severity'' (JStr ''medium'') = JStr ''high''
            then risk_row 8 True True
          else if dict_get plan ''severity'' (JStr ''medium'') = JStr ''critical''
            then risk_row 10 True True
          else risk_row 5 True False)"
  using assms
  by (cases "dict_get plan ''severity'' (JStr ''medium'')")
     (auto simp: assess_risk_level_def table_get_def risk_levels_def)

theorem assess_risk_level_table_witness:
  "assess_risk_level [(''exception_type'', JStr ''outage''), (''severity'', JStr ''high'')]
     = Inr (JObj [(''risk_score'', JInt 8), (''monitoring_required'', JBool True),
                  (''escalation_needed'', JBool True)])
   \<and> assess_risk_level [(''severity'', JStr ''severe'')]
     = Inr (JObj [(''risk_score'', JInt 5), (''monitoring_required'', JBool True),
                  (''escalation_needed'', JBool False)])"
  using assess_risk_level_table
      [of "[(''exception_type'', JStr ''outage''), (''severity'', JStr ''high'')]"]
    assess_risk_level_table [of "[(''severity'', JStr ''severe'')]"]
  by (simp add: dict_get_def risk_row_def)

subsection \<open>Dependencies and checkpoints of a workflow\<close>

lemma filter_upt_step:
  "a < b \<Longrightarrow> filter P [a..<b] = (if P a then [a] else []) @ filter P [Suc a..<b]"
  by (simp add: upt_conv_Cons)

lemma filter_upt_skip:
  "\<not> P a \<Longrightarrow> filter P [a..<b] = filter P [Suc a..<b]"
  by (cases "a < b") (simp_all add: upt_conv_Cons)

lemma range_step_thirds:
  "start mod 3 = 2 \<Longrightarrow>
   map Suc (range_step start n 3) = filter (\<lambda>m. m mod 3 = 0) [Suc start..<Suc n]"
proof (induction start n "3::nat" rule: range_step.induct)
  case (1 start stop)
  show ?case
  proof (cases "start < stop")
    case False
    then show ?thesis by (simp add: range_step.simps)
  next
    case True
    have m: "(start + 3) mod 3 = 2" using "1.prems" by simp
    have IH: "map Suc (range_step (start + 3) stop 3)
              = filter (\<lambda>m. m mod 3 = 0) [Suc (start + 3)..<Suc stop]"
      using "1.hyps" True m by simp
    have p1: "Suc start mod 3 = 0" and p2: "Suc (Suc start) mod 3 \<noteq> 0"
      and p3: "Suc (Suc (Suc start)) mod 3 \<noteq> 0"
      using "1.prems" by presburger+
    have lt: "Suc start < Suc stop" using True by simp
    have a: "filter (\<lambda>m. m mod 3 = 0) [Suc start..<Suc stop]
             = Suc start # filter (\<lambda>m. m mod 3 = 0) [Suc (Suc start)..<Suc stop]"
      unfolding filter_upt_step [OF lt] using p1 by simp
    have b: "filter (\<lambda>m. m mod 3 = 0) [Suc (Suc start)..<Suc stop]
             = filter (\<lambda>m. m mod 3 = 0) [Suc (Suc (Suc start))..<Suc stop]"
      using p2 by (rule filter_upt_skip)
    have c: "filter (\<lambda>m. m mod 3 = 0) [Suc (Suc (Suc start))..<Suc stop]
             = filter (\<lambda>m. m mod 3 = 0) [Suc (Suc (Suc (Suc start)))..<Suc stop]"
      using p3 by (rule filter_upt_skip)
    have e: "Suc (start + 3) = Suc (Suc (Suc (Suc start)))" by simp
    have "range_step start stop 3 = start # range_step (start + 3) stop 3"
      using True by (subst range_step.simps) simp
    then have "map Suc (range_step start stop 3)
               = Suc start # map Suc (range_step (start + 3) stop 3)"
      by (simp only: list.map)
    then show ?thesis unfolding IH a b c e .
  qed
qed

lemma thirds_from_one:
  "filter (\<lambda>m. m mod 3 = 0) [1..<b] = filter (\<lambda>m. m mod 3 = 0) [3..<b]"
proof -
  have "filter (\<lambda>m. m mod 3 = 0) [1..<b] = filter (\<lambda>m. m mod 3 = 0) [Suc 1..<b]"
    by (rule filter_upt_skip) simp
  also have "\<dots> = filter (\<lambda>m. m mod 3 = 0) [Suc (Suc 1)..<b]"
    by (rule filter_upt_skip) simp
  also have "Suc (Suc 1) = 3" by simp
  finally show ?thesis .
qed

lemma dependencies_loop_upt:
  "dependencies_loop i xs =
     map dependency_sentence (filter (\<lambda>j. 1 < j) [Suc i..<Suc i + length xs])"
proof (induction xs arbitrary: i)
  case Nil
  then show ?case by simp
next
  case (Cons x xs)
  have "[Suc i..<Suc i + length (x # xs)] = Suc i # [Suc (Suc i)..<Suc (Suc i) + length xs]"
    by (simp add: upt_conv_Cons del: upt_Suc)
  then show ?case
    using Cons.IH [of "Suc i"]
    by (simp add: dependency_sentence_def dependency_text_def del: upt_Suc)
qed

lemma dependencies_from_two:
  "dependencies_loop 0 xs = map dependency_sentence [2..<Suc (length xs)]"
proof -
  have "filter (\<lambda>j. 1 < j) [1..<Suc (length xs)] = filter (\<lambda>j. 1 < j) [Suc 1..<Suc (length xs)]"
    by (rule filter_upt_skip) simp
  also have "\<dots> = [Suc 1..<Suc (length xs)]"
    by (rule filter_True) (simp del: upt_Suc)
  finally show ?thesis
    using dependencies_loop_upt [of 0 xs] by (simp add: numeral_2_eq_2 del: upt_Suc)
qed

lemma checkpoints_thirds:
  "map checkpoint (range_step 2 n 3) = map quality_review (filter (\<lambda>m. m mod 3 = 0) [1..<Suc n])"
proof -
  have "checkpoint = (\<lambda>i. quality_review (Suc i))"
    by (rule ext) (simp add: checkpoint_def quality_review_def)
  then have "map checkpoint (range_step 2 n 3) = map quality_review (map Suc (range_step 2 n 3))"
    by (simp only: map_map comp_def)
  also have "map Suc (range_step 2 n 3) = filter (\<lambda>m. m mod 3 = 0) [3..<Suc n]"
  proof -
    have two: "(2::nat) mod 3 = 2" by simp
    have three: "Suc 2 = 3" by simp
    show ?thesis using range_step_thirds [OF two, of n] by (simp only: three)
  qed
  finally show ?thesis by (simp only: thirds_from_one)
qed

lemma no_thirds_below_three:
  "n \<le> 2 \<Longrightarrow> filter (\<lambda>m. m mod 3 = 0) [1..<Suc n] = []"
proof -
  assume "n \<le> 2"
  then have "[3..<Suc n] = []" by simp
  then show ?thesis by (simp only: thirds_from_one filter.simps)
qed

text \<open>
  C7: a workflow plan whose steps are a list of \<open>n\<close> elements is enriched without error; its
  dependencies are the sentences "Step i depends on completion of Step i-1" for i from 2 to
  n, which are n-1 sentences, and its checkpoints are the Quality Review checkpoints with
  reviewer role Supervisor after the steps 3, 6, 9, ... up to n, none when n is at most 2.
\<close>

theorem enhance_workflow_dependencies_checkpoints:
  assumes "map_of plan ''steps'' = Some (JArr steps)"
  shows "\<exists>enhanced. enhance_workflow plan docs = Inr enhanced
     \<and> map_of enhanced ''dependencies''
         = Some (JArr (map dependency_sentence [2..<Suc (length steps)]))
     \<and> length (map dependency_sentence [2..<Suc (length steps)]) = length steps - 1
     \<and> map_of enhanced ''checkpoints''
         = Some (JArr (map quality_review
                        (filter (\<lambda>m. m mod 3 = 0) [1..<Suc (length steps)])))
     \<and> (length steps \<le> 2 \<longrightarrow> map_of enhanced ''checkpoints'' = Some (JArr []))"
proof -
  let ?deps = "JArr (map dependency_sentence [2..<Suc (length steps)])"
  let ?cps = "JArr (map quality_review (filter (\<lambda>m. m mod 3 = 0) [1..<Suc (length steps)]))"
  let ?e1 = "dict_set plan ''policy_sources'' (policy_sources docs)"
  let ?e2 = "dict_set ?e1 ''dependencies'' ?deps"
  let ?e3 = "dict_set ?e2 ''checkpoints'' ?cps"
  have s1: "map_of ?e1 ''steps'' = Some (JArr steps)"
    using assms by (simp add: map_of_dict_set)
  have s2: "dict_get ?e2 ''steps'' (JArr []) = JArr steps"
    using assms by (simp add: dict_get_def map_of_dict_set)
  have d: "identify_dependencies (JArr steps) = Inr ?deps"
    by (simp only: identify_dependencies_def py_iter.simps sum.case dependencies_from_two)
  have c: "add_checkpoints (JArr steps) = Inr ?cps"
    by (simp only: add_checkpoints_def py_len.simps sum.case checkpoints_thirds)
  have run: "enhance_workflow plan docs = Inr ?e3"
    by (simp only: enhance_workflow_def Let_def s1 option.case d sum.case s2 c)
  have deps: "map_of ?e3 ''dependencies'' = Some ?deps"
    by (simp add: map_of_dict_set del: upt_Suc)
  have cps: "map_of ?e3 ''checkpoints'' = Some ?cps"
    by (simp add: map_of_dict_set del: upt_Suc)
  have small: "length steps \<le> 2 \<longrightarrow> ?cps = JArr []"
    using no_thirds_below_three [of "length steps"] by (simp del: upt_Suc)
  have len: "length (map dependency_sentence [2..<Suc (length steps)]) = length steps - 1"
  proof -
    have "length [2..<Suc (length steps)] = Suc (length steps) - 2" by (rule length_upt)
    also have "\<dots> = length steps - 1" by arith
    finally show ?thesis by (simp only: length_map)
  qed
  show ?thesis
  proof (intro exI conjI)
    show "enhance_workflow plan docs = Inr ?e3" by (rule run)
    show "map_of ?e3 ''dependencies'' = Some ?deps" by (rule deps)
    show "length (map dependency_sentence [2..<Suc (length steps)]) = length steps - 1"
      by (rule len)
    show "map_of ?e3 ''checkpoints'' = Some ?cps" by (rule cps)
    show "length steps \<le> 2 \<longrightarrow> map_of ?e3 ''checkpoints'' = Some (JArr [])"
    proof
      assume "length steps \<le> 2"
      with small have "?cps = JArr []" by blast
      then have "Some ?cps = Some (JArr [])" by (rule arg_cong)
      with cps show "map_of ?e3 ''checkpoints'' = Some (JArr [])" by (rule trans)
    qed
  qed
qed

text \<open>A workflow of seven steps has six dependencies and checkpoints after steps 3 and 6 only.\<close>

theorem enhance_workflow_seven_steps:
  "\<exists>enhanced.
     enhance_workflow
       [(''workflow_type'', JStr ''admission''),
        (''steps'', JArr [JStr ''a'', JStr ''b'', JStr ''c'', JStr ''d'', JStr ''e'', JStr ''f'',
                          JStr ''g''])] [] = Inr enhanced
     \<and> map_of enhanced ''dependencies''
         = Some (JArr [JStr ''Step 2 depends on completion of Step 1'',
                       JStr ''Step 3 depends on completion of Step 2'',
                       JStr ''Step 4 depends on completion of Step 3'',
                       JStr ''Step 5 depends on completion of Step 4'',
                       JStr ''Step 6 depends on completion of Step 5'',
                       JStr ''Step 7 depends on completion of Step 6''])
     \<and> map_of enhanced ''checkpoints''
         = Some (JArr [JObj [(''after_step'', JInt 3),
                             (''checkpoint_type'', JStr ''Quality Review''),
                             (''description'', JStr ''Review completion of steps 1-3''),
                             (''reviewer_role'', JStr ''Supervisor'')],
                       JObj [(''after_step'', JInt 6),
                             (''checkpoint_type'', JStr ''Quality Review''),
                             (''description'', JStr ''Review completion of steps 1-6''),
                             (''reviewer_role'', JStr ''Supervisor'')]])"
proof -
  have upt7: "[2..<Suc 7] = [2, 3, 4, 5, 6, 7]" "[1..<Suc 7] = [1, 2, 3, 4, 5, 6, 7]"
    by (simp_all add: upt_conv_Cons)
  have len: "length [JStr ''a'', JStr ''b'', JStr ''c'', JStr ''d'', JStr ''e'', JStr ''f'',
                     JStr ''g''] = 7"
    by simp
  show ?thesis
    using enhance_workflow_dependencies_checkpoints
      [of "[(''workflow_type'', JStr ''admission''),
        (''steps'', JArr [JStr ''a'', JStr ''b'', JStr ''c'', JStr ''d'', JStr ''e'', JStr ''f'',
                          JStr ''g''])]"
          "[JStr ''a'', JStr ''b'', JStr ''c'', JStr ''d'', JStr ''e'', JStr ''f'', JStr ''g'']"
          "[]"]
    unfolding len upt7
    by (simp add: dependency_sentence_def quality_review_def str_nat.simps)
qed

subsection \<open>Routing\<close>

lemma py_in_sublist: "py_in word s = sublist word s"
proof (induction s)
  case Nil
  then show ?case by simp
next
  case (Cons c s)
  then show ?case by (simp add: sublist_Cons_right)
qed

lemma fallback_routing_keywords: "fallback_routing q = keyword_routing q"
  by (simp only: fallback_routing_def keyword_routing_def mentions_def Let_def
      list_ex_iff py_in_sublist)

text \<open>
  C6: when the model call raises, and when the trimmed reply is none of PolicyInterpreter,
  WorkflowPlanner, ExceptionHandler, \<^verbatim>\<open>route_query\<close> returns the keyword routing of the query:
  PolicyInterpreter for policy, regulation, compliance or rule; else WorkflowPlanner for
  workflow, procedure, steps or process; else ExceptionHandler for problem, error,
  exception, emergency or issue; else PolicyInterpreter.
\<close>

theorem route_query_fallback:
  "route_query q c (Inl e) = keyword_routing q
   \<and> (py_strip (reply_content reply)
          \<notin> {''PolicyInterpreter'', ''WorkflowPlanner'', ''ExceptionHandler''}
        \<longrightarrow> route_query q c (Inr reply) = keyword_routing q)"
  by (simp add: route_query_def valid_agents_def fallback_routing_keywords)

theorem route_query_fallback_witness:
  "route_query ''Which STEPS come first?'' []
     (Inr \<lparr>reply_content = '' Workflow Planner '', reply_decoded = None\<rparr>) = ''WorkflowPlanner''
   \<and> route_query ''There is an emergency'' [] (Inl (External ''timeout'')) = ''ExceptionHandler''
   \<and> route_query ''hello'' [] (Inl (External ''timeout'')) = ''PolicyInterpreter''"
proof -
  have strip: "py_strip '' Workflow Planner '' = ''Workflow Planner''"
    by (simp add: py_strip_def is_space_def)
  have k1: "fallback_routing ''Which STEPS come first?'' = ''WorkflowPlanner''"
    by code_simp
  have k2: "fallback_routing ''There is an emergency'' = ''ExceptionHandler''"
    by code_simp
  have k3: "fallback_routing ''hello'' = ''PolicyInterpreter''"
    by code_simp
  show ?thesis
    using route_query_fallback [of "''Which STEPS come first?''" "[]" "External ''timeout''"
        "\<lparr>reply_content = '' Workflow Planner '', reply_decoded = None\<rparr>"]
      route_query_fallback [of "''There is an emergency''" "[]" "External ''timeout''"
        "\<lparr>reply_content = '' Workflow Planner '', reply_decoded = None\<rparr>"]
      route_query_fallback [of "''hello''" "[]" "External ''timeout''"
        "\<lparr>reply_content = '' Workflow Planner '', reply_decoded = None\<rparr>"]
    by (simp add: strip k1 k2 k3 fallback_routing_keywords [symmetric])
qed

subsection \<open>Fallback of the policy interpretation\<close>

text \<open>
  C3, as stated, fails: a reply of at most 200 characters that does not decode is returned
  as the direct answer unchanged, without the three dots.
\<close>

theorem fallback_short_reply_unchanged:
  "generate_policy_interpretation
     (Inr \<lparr>reply_content = ''I cannot answer that.'', reply_decoded = None\<rparr>)
   = Inr (JObj [(''direct_answer'', JStr ''I cannot answer that.''),
                (''requirements'', JArr []), (''procedures'', JArr []),
                (''exceptions'', JArr []), (''compliance_notes'', JArr [])])
   \<and> generate_policy_interpretation
     (Inr \<lparr>reply_content = ''I cannot answer that.'', reply_decoded = None\<rparr>)
   \<noteq> Inr (JObj [(''direct_answer'', JStr (take 200 ''I cannot answer that.'' @ ''...'')),
                (''requirements'', JArr []), (''procedures'', JArr []),
                (''exceptions'', JArr []), (''compliance_notes'', JArr [])])"
  by (simp add: generate_policy_interpretation_def generate_def parse_fallback_response_def
      truncate_dots_def)

text \<open>
  C3, amended: for a reply that does not decode, the fallback record has the four lists
  empty, and its direct answer is the first 200 characters of the reply followed by three
  dots when the reply is longer than 200 characters, the reply itself otherwise.
\<close>

theorem policy_interpretation_fallback:
  "reply_decoded reply = None \<Longrightarrow>
   generate_policy_interpretation (Inr reply)
   = Inr (JObj [(''direct_answer'',
                   JStr (if 200 < length (reply_content reply)
                         then take 200 (reply_content reply) @ ''...''
                         else reply_content reply)),
                (''requirements'', JArr []), (''procedures'', JArr []),
                (''exceptions'', JArr []), (''compliance_notes'', JArr [])])"
  by (simp add: generate_policy_interpretation_def generate_def parse_fallback_response_def
      truncate_dots_def)

theorem policy_interpretation_fallback_witness:
  "generate_policy_interpretation
     (Inr \<lparr>reply_content = replicate 200 CHR ''a'' @ ''bcd'', reply_decoded = None\<rparr>)
   = Inr (JObj [(''direct_answer'', JStr (replicate 200 CHR ''a'' @ ''...'')),
                (''requirements'', JArr []), (''procedures'', JArr []),
                (''exceptions'', JArr []), (''compliance_notes'', JArr [])])"
  using policy_interpretation_fallback
    [of "\<lparr>reply_content = replicate 200 CHR ''a'' @ ''bcd'', reply_decoded = None\<rparr>"]
  by simp

subsection \<open>Validation of an uploaded file\<close>

text \<open>
  C4: for a processor built from the settings, \<^verbatim>\<open>validate_file\<close> succeeds exactly when the
  size is at most \<open>max_file_size_mb\<close> times 1,048,576 bytes and the lowercase extension
  without its dot is one of the supported types; otherwise it raises a
  \<^verbatim>\<open>DocumentProcessingError\<close>. Either way the processor is left as it was. The default
  supported types are pdf, txt and docx and the default limit is 52,428,800 bytes.
\<close>

theorem validate_file_iff:
  "(fst (validate_file (new_document_processor settings) filename file_size content_type) = Inr ()
      \<longleftrightarrow> file_size \<le> max_file_size_mb settings * 1048576
          \<and> extension filename \<in> set (split_on CHR '','' (supported_file_types settings)))
   \<and> (fst (validate_file (new_document_processor settings) filename file_size content_type)
         \<noteq> Inr ()
      \<longleftrightarrow> (\<exists>err. fst (validate_file (new_document_processor settings) filename file_size
                       content_type) = Inl err))
   \<and> snd (validate_file (new_document_processor settings) filename file_size content_type)
       = new_document_processor settings
   \<and> split_on CHR '','' (supported_file_types default_settings) = [''pdf'', ''txt'', ''docx'']
   \<and> max_file_size_mb default_settings * 1048576 = 52428800"
  by (auto simp: validate_file_def new_document_processor_def extension_def Let_def
      default_settings_def)

text \<open>With the defaults, a file of exactly 52,428,800 bytes passes and one byte more fails.\<close>

theorem validate_file_boundary:
  "fst (validate_file (new_document_processor default_settings) ''policies/Handbook.PDF''
          52428800 ''application/pdf'') = Inr ()
   \<and> fst (validate_file (new_document_processor default_settings) ''policies/Handbook.PDF''
          52428801 ''application/pdf'') \<noteq> Inr ()
   \<and> fst (validate_file (new_document_processor default_settings) ''setup.exe''
          1024 ''application/octet-stream'') \<noteq> Inr ()"
proof -
  have e1: "extension ''policies/Handbook.PDF'' = ''pdf''" by code_simp
  have e2: "extension ''setup.exe'' = ''exe''" by code_simp
  have s: "split_on CHR '','' (supported_file_types default_settings) = [''pdf'', ''txt'', ''docx'']"
    by (simp add: default_settings_def)
  have m: "max_file_size_mb default_settings = 50" by (simp add: default_settings_def)
  show ?thesis
    using validate_file_iff [of default_settings "''policies/Handbook.PDF''" 52428800
        "''application/pdf''"]
      validate_file_iff [of default_settings "''policies/Handbook.PDF''" 52428801
        "''application/pdf''"]
      validate_file_iff [of default_settings "''setup.exe''" 1024
        "''application/octet-stream''"]
    by (simp add: e1 e2 s m)
qed

subsection \<open>Rate limiter\<close>

text \<open>
  For a request less than a day old the \<^verbatim>\<open>seconds\<close> attribute is its age in whole seconds.
\<close>

lemma timedelta_seconds_within_day:
  "0 \<le> delta_us \<Longrightarrow> delta_us < 86400000000 \<Longrightarrow>
   timedelta_seconds delta_us = delta_us div 1000000"
proof -
  assume "0 \<le> delta_us" "delta_us < 86400000000"
  then have "0 \<le> delta_us div 1000000" "delta_us div 1000000 < 86400" by simp_all
  then show ?thesis by (simp add: timedelta_seconds_def)
qed

text \<open>
  C8 does not hold of the code: with limit 1 and window 60 seconds, a first request at time
  0 is allowed, and a second request from the same key 86401 seconds later is denied,
  although the window has long elapsed: the age of the first request has \<^verbatim>\<open>seconds\<close> field
  1, so it is kept.
\<close>

theorem is_allowed_denied_a_day_later:
  "fst (is_allowed new_rate_limiter 0 ''client'' 1 60) = True
   \<and> fst (is_allowed (snd (is_allowed new_rate_limiter 0 ''client'' 1 60))
            86401000000 ''client'' 1 60) = False"
  by (simp add: is_allowed_def new_rate_limiter_def timedelta_seconds_def)

subsection \<open>Evaluation of an answer without words\<close>

lemma lower_char_whitespace:
  "\<forall>c \<in> set [CHR 0x09, CHR 0x0A, CHR 0x0B, CHR 0x0C, CHR 0x0D,
                  CHR 0x1C, CHR 0x1D, CHR 0x1E, CHR 0x1F, CHR '' '']. lower_char c = c"
  by (simp add: lower_char_def)

lemma lower_char_space: "is_space c \<Longrightarrow> lower_char c = c"
  using lower_char_whitespace unfolding is_space_def by blast

lemma split_loop_spaces: "\<forall>c \<in> set s. is_space c \<Longrightarrow> split_loop [] s = []"
  by (induction s) simp_all

lemma word_set_spaces: "\<forall>c \<in> set s. is_space c \<Longrightarrow> word_set s = []"
proof -
  assume h: "\<forall>c \<in> set s. is_space c"
  then have "py_lower s = s"
    by (simp add: py_lower_def lower_char_space map_idI)
  with h show ?thesis
    by (simp add: word_set_def py_split_def split_loop_spaces)
qed

text \<open>
  C10: with at least one retrieved document and an answer that is empty or only
  whitespace, \<^verbatim>\<open>evaluate_rag_response\<close> returns no metrics: the context precision divides by
  the number of answer words, which is zero, and the call fails with
  \<^verbatim>\<open>ZeroDivisionError\<close>; the history is unchanged.
\<close>

theorem evaluate_rag_response_no_words:
  assumes "retrieved_docs \<noteq> []" and "\<forall>c \<in> set answer. is_space c"
  shows "evaluate_rag_response self now q answer retrieved_docs ground_truth
         = (Inl ZeroDivisionError, self)"
proof -
  from assms(1) obtain doc rest where docs: "retrieved_docs = doc # rest"
    by (cases retrieved_docs) auto
  have "precision_loop [] (doc # rest) 0 = Inl ZeroDivisionError"
    by (simp add: py_div_def overlap_count_def)
  then have "calculate_context_precision retrieved_docs answer = Inl ZeroDivisionError"
    using docs word_set_spaces [OF assms(2)]
    by (simp add: calculate_context_precision_def)
  then show ?thesis by (simp add: evaluate_rag_response_def Let_def)
qed

theorem evaluate_rag_response_no_words_witness:
  "evaluate_rag_response \<lparr>metrics_history = []\<rparr> 1700000000 ''What is the visiting policy?''
     '' '' [\<lparr>content_opt = Some ''Visiting hours are 9 to 5'', score_opt = Some 0.8\<rparr>] None
   = (Inl ZeroDivisionError, \<lparr>metrics_history = []\<rparr>)
   \<and> evaluate_rag_response \<lparr>metrics_history = []\<rparr> 1700000000 ''What is the visiting policy?''
     [] [\<lparr>content_opt = Some ''Visiting hours are 9 to 5'', score_opt = Some 0.8\<rparr>] None
   = (Inl ZeroDivisionError, \<lparr>metrics_history = []\<rparr>)"
  using evaluate_rag_response_no_words
      [of "[\<lparr>content_opt = Some ''Visiting hours are 9 to 5'', score_opt = Some 0.8\<rparr>]" "'' ''"
        "\<lparr>metrics_history = []\<rparr>" 1700000000 "''What is the visiting policy?''" None]
    evaluate_rag_response_no_words
      [of "[\<lparr>content_opt = Some ''Visiting hours are 9 to 5'', score_opt = Some 0.8\<rparr>]" "[]"
        "\<lparr>metrics_history = []\<rparr>" 1700000000 "''What is the visiting policy?''" None]
  by (simp add: is_space_def)

subsection \<open>Confidence of the agents\<close>

lemma confidence_log_reasoning: "confidence (log_reasoning state line) = confidence state"
  by (simp add: log_reasoning_def)

lemma confidence_set_confidence: "confidence (set_confidence state c reason) = c"
  by (simp add: set_confidence_def log_reasoning_def)

lemma confidence_handle_error: "confidence (handle_error state e) = 0"
  by (simp add: handle_error_def log_reasoning_def)

lemma confidence_handle_no_policies: "confidence (handle_no_policies state) = 0.1"
  by (simp add: handle_no_policies_def Let_def confidence_set_confidence)

lemma sum_list_scores_nonneg:
  "\<forall>d \<in> set docs. 0 \<le> doc_score d \<Longrightarrow> 0 \<le> sum_list (map doc_score docs)"
  by (induction docs) simp_all

lemma policy_confidence_bounds:
  assumes "policy_confidence docs v = Inr c"
    and "\<forall>d \<in> set docs. 0.3 < doc_score d"
  shows "0 \<le> c \<and> c \<le> 0.95"
proof (cases "docs = []")
  case True
  with assms(1) show ?thesis by (simp add: policy_confidence_def)
next
  case False
  from assms(2) have "\<forall>d \<in> set docs. 0 \<le> doc_score d" by force
  then have "0 \<le> sum_list (map doc_score docs)" by (rule sum_list_scores_nonneg)
  then have avg: "0 \<le> sum_list (map doc_score docs) / real (length docs)" by simp
  from assms(1) False obtain d where "v = JObj d"
    by (cases v) (simp_all add: policy_confidence_def)
  with assms(1) False avg show ?thesis
    by (auto simp: policy_confidence_def Let_def min_def split: if_splits)
qed

lemma hits_above_scores:
  "hits_above threshold search = Inr docs \<Longrightarrow> \<forall>d \<in> set docs. threshold < doc_score d"
  by (auto simp: hits_above_def split: sum.splits)

lemma workflow_confidence_bounds:
  "workflow_confidence docs plan = Inr c \<Longrightarrow> 0 \<le> c \<and> c \<le> 0.95"
  by (auto simp: workflow_confidence_def Let_def min_def split: sum.splits if_splits)

lemma severity_adjustment_bound:
  "table_get severity_adjustments v 0 = Inr a \<Longrightarrow> - 0.1 \<le> a"
  by (cases v) (auto simp: table_get_def severity_adjustments_def split: if_splits)

lemma exception_confidence_bounds:
  assumes "exception_confidence docs plan = Inr c"
  shows "0 \<le> c \<and> c \<le> 0.95"
proof -
  have boost: "0 \<le> min 0.15 (real (length docs) * 0.05)" by simp
  from assms obtain d where plan: "plan = JObj d"
    by (cases plan) (auto simp: exception_confidence_def Let_def split: sum.splits)
  from assms obtain detailed where
    rest: "(case table_get severity_adjustments (dict_get d ''severity'' (JStr ''medium'')) 0 of
              Inl e \<Rightarrow> Inl e
            | Inr a \<Rightarrow> Inr (min 0.95 (0.75 + min 0.15 (real (length docs) * 0.05)
                                      + (if detailed then 0.05 else 0.0) + a))) = Inr c"
    unfolding plan by (auto simp: exception_confidence_def Let_def split: sum.splits)
  then obtain a where
    a: "table_get severity_adjustments (dict_get d ''severity'' (JStr ''medium'')) 0 = Inr a"
    and c: "c = min 0.95 (0.75 + min 0.15 (real (length docs) * 0.05)
                     + (if detailed then 0.05 else 0.0) + a)"
    by (auto split: sum.splits)
  have "- 0.1 \<le> a" using a by (rule severity_adjustment_bound)
  with boost show ?thesis unfolding c by (auto simp: min_def)
qed

lemma policy_interpreter_bounds:
  "0 \<le> confidence (policy_interpreter_process state search response)
   \<and> confidence (policy_interpreter_process state search response) \<le> 0.95"
proof (cases "retrieve_policies search")
  case (Inl e)
  then show ?thesis
    by (simp add: policy_interpreter_process_def Let_def confidence_handle_error)
next
  case (Inr docs)
  then have scores: "\<forall>d \<in> set docs. 0.3 < doc_score d"
    unfolding retrieve_policies_def by (rule hits_above_scores)
  show ?thesis
  proof (cases "docs = []")
    case True
    with Inr show ?thesis
      by (simp add: policy_interpreter_process_def Let_def confidence_handle_no_policies)
  next
    case False
    show ?thesis
    proof (cases "generate_policy_interpretation response")
      case (Inl e)
      with Inr False show ?thesis
        by (simp add: policy_interpreter_process_def Let_def confidence_handle_error)
    next
      case interp: (Inr v)
      show ?thesis
      proof (cases "structure_response v docs")
        case (Inl e)
        with Inr False interp show ?thesis
          by (simp add: policy_interpreter_process_def Let_def confidence_handle_error)
      next
        case str: (Inr structured)
        show ?thesis
        proof (cases "policy_confidence docs v")
          case (Inl e)
          with Inr False interp str show ?thesis
            by (simp add: policy_interpreter_process_def Let_def confidence_handle_error)
        next
          case c: (Inr c)
          with Inr False interp str policy_confidence_bounds [OF c scores] show ?thesis
            by (simp add: policy_interpreter_process_def Let_def confidence_log_reasoning
                confidence_set_confidence)
        qed
      qed
    qed
  qed
qed

lemma workflow_planner_bounds:
  "0 \<le> confidence (workflow_planner_process state search response)
   \<and> confidence (workflow_planner_process state search response) \<le> 0.95"
  by (auto simp: workflow_planner_process_def Let_def confidence_handle_error
      confidence_log_reasoning confidence_set_confidence
      split: sum.splits dest: workflow_confidence_bounds)

lemma exception_handler_bounds:
  "0 \<le> confidence (exception_handler_process state search response)
   \<and> confidence (exception_handler_process state search response) \<le> 0.95"
  by (auto simp: exception_handler_process_def Let_def confidence_handle_error
      confidence_log_reasoning confidence_set_confidence
      split: sum.splits dest: exception_confidence_bounds)

text \<open>
  C1: whatever the state, the retrieval and the model's reply, the confidence of the state
  returned by \<^verbatim>\<open>process\<close> is between 0 and 0.95 for the policy interpreter, the workflow
  planner and the exception handler. When no retrieved policy passes the threshold the
  policy interpreter sets it to exactly 0.1, and the error handler sets it to exactly 0,
  as every agent does when the retrieval raises. The bounds rest on the clamp
  \<^verbatim>\<open>min(0.95, ...)\<close> and on sums of numbers that are not negative, so they do not depend on
  how the floating-point sums are rounded.
\<close>

theorem process_confidence_bounds:
  "0 \<le> confidence (policy_interpreter_process state search response)
   \<and> confidence (policy_interpreter_process state search response) \<le> 0.95
   \<and> 0 \<le> confidence (workflow_planner_process state search response)
   \<and> confidence (workflow_planner_process state search response) \<le> 0.95
   \<and> 0 \<le> confidence (exception_handler_process state search response)
   \<and> confidence (exception_handler_process state search response) \<le> 0.95
   \<and> (retrieve_policies search = Inr []
        \<longrightarrow> confidence (policy_interpreter_process state search response) = 0.1)
   \<and> confidence (handle_error state e) = 0
   \<and> (search = Inl e
        \<longrightarrow> confidence (policy_interpreter_process state search response) = 0
          \<and> confidence (workflow_planner_process state search response) = 0
          \<and> confidence (exception_handler_process state search response) = 0)"
proof -
  have no_policy: "retrieve_policies search = Inr []
        \<longrightarrow> confidence (policy_interpreter_process state search response) = 0.1"
    by (simp add: policy_interpreter_process_def Let_def confidence_handle_no_policies)
  have failed: "search = Inl e
        \<longrightarrow> confidence (policy_interpreter_process state search response) = 0
          \<and> confidence (workflow_planner_process state search response) = 0
          \<and> confidence (exception_handler_process state search response) = 0"
    by (simp add: policy_interpreter_process_def workflow_planner_process_def
        exception_handler_process_def retrieve_policies_def hits_above_def Let_def
        confidence_handle_error)
  show ?thesis
    using policy_interpreter_bounds [of state search response]
      workflow_planner_bounds [of state search response]
      exception_handler_bounds [of state search response]
      no_policy failed confidence_handle_error [of state e]
    by blast
qed

theorem process_confidence_bounds_witness:
  "confidence (policy_interpreter_process
       \<lparr>query = ''What is the visiting policy?'', ctx = [], confidence = 1, reasoning = [],
        result = None, error = None\<rparr>
       (Inr [\<lparr>doc_content = ''Parking rules'', doc_score = 0.25, doc_source = ''parking.pdf''\<rparr>])
       (Inl (External ''connection refused''))) = 0.1
   \<and> confidence (workflow_planner_process
       \<lparr>query = ''What is the visiting policy?'', ctx = [], confidence = 1, reasoning = [],
        result = None, error = None\<rparr>
       (Inl (External ''store unavailable'')) (Inl (External ''connection refused''))) = 0"
  using process_confidence_bounds
    [of "\<lparr>query = ''What is the visiting policy?'', ctx = [], confidence = 1, reasoning = [],
          result = None, error = None\<rparr>"
        "Inr [\<lparr>doc_content = ''Parking rules'', doc_score = 0.25, doc_source = ''parking.pdf''\<rparr>]"
        "Inl (External ''connection refused'')" "External ''store unavailable''"]
    process_confidence_bounds
    [of "\<lparr>query = ''What is the visiting policy?'', ctx = [], confidence = 1, reasoning = [],
          result = None, error = None\<rparr>"
        "Inl (External ''store unavailable'')"
        "Inl (External ''connection refused'')" "External ''store unavailable''"]
  by (simp add: retrieve_policies_def hits_above_def)

text \<open>
  The upper bound is reached: one hit of score 0.9 and a reply with a direct answer give
  0.9 + 0.2 + 0.05, clamped to 0.95.
\<close>

lemma policy_interpreter_clamped_example:
  "confidence (policy_interpreter_process
       \<lparr>query = ''What is the visiting policy?'', ctx = [], confidence = 0, reasoning = [],
        result = None, error = None\<rparr>
       (Inr [\<lparr>doc_content = ''Visiting hours'', doc_score = 0.9, doc_source = ''visits.pdf''\<rparr>])
       (Inr \<lparr>reply_content = ''{}'',
             reply_decoded = Some (JObj [(''direct_answer'', JStr ''From 9 to 5'')])\<rparr>))
   = 0.95"
  by (simp add: policy_interpreter_process_def retrieve_policies_def hits_above_def
      generate_policy_interpretation_def generate_def structure_response_def
      policy_confidence_def dict_get_def Let_def confidence_log_reasoning
      confidence_set_confidence)


subsection \<open>Sanitation of a text without matches\<close>










text \<open>The text of the witness is what \<^verbatim>\<open>sanitize_output\<close> makes of a text with a number.\<close>

lemma redaction_example:
  "sanitize_output ''SSN 123-45-6789 on file'' = ''SSN [REDACTED_SSN] on file''"
  by code_simp





end
